theory Spec2Isabelle
  imports Complex_Main "HOL-Library.Word"
begin

section \<open>The geometry value types of GeomUtil.h\<close>

text \<open>
  \<^verbatim>\<open>PointT<T>\<close>, \<^verbatim>\<open>SizeT<T>\<close> and \<^verbatim>\<open>RectT<T>\<close> are templates over a numeric
  kind \<open>T\<close>; the header instantiates them at \<^verbatim>\<open>int\<close> and \<^verbatim>\<open>double\<close>. The
  embedding keeps the type parameter and reads the templates twice.
  \<^item> At a linearly ordered ring \<open>'a\<close>, with exact \<open>+\<close> and \<open>-\<close>: this reading
    serves the properties that rest on the order of the coordinates alone or
    that evaluate the code on small integers.
  \<^item> At a numeric kind, the record of the operators of \<open>T\<close> as the machine
    computes them: \<open>int_kind\<close> is \<^verbatim>\<open>int\<close>, 32 bits in two's complement, and
    \<open>double_kind fl\<close> is \<^verbatim>\<open>double\<close>, every sum and difference rounded by \<open>fl\<close>.
    Every property that depends on what \<open>+\<close> and \<open>-\<close> compute is stated at a
    kind.

  Field names are suffixed with the initial of their struct (\<open>xP\<close> for
  \<^verbatim>\<open>PointT::x\<close>, \<open>minR\<close> for \<^verbatim>\<open>RectT::min\<close>), since \<open>x\<close>, \<open>y\<close>, \<open>min\<close> and \<open>max\<close>
  are needed as variables and as the functions of HOL.
\<close>

record 'a PointT =
  xP :: 'a
  yP :: 'a

record 'a SizeT =
  dxS :: 'a
  dyS :: 'a

record 'a RectT =
  minR :: "'a PointT"
  maxR :: "'a PointT"

type_synonym i32 = "32 word"
type_synonym PointI = "i32 PointT"
type_synonym PointD = "real PointT"
type_synonym SizeI = "i32 SizeT"
type_synonym SizeD = "real SizeT"
type_synonym RectI = "i32 RectT"
type_synonym RectD = "real RectT"

subsection \<open>PointT and SizeT\<close>

text \<open>\<^verbatim>\<open>PointT(T x, T y) : x(x), y(y)\<close>\<close>

definition PointT_new :: "'a \<Rightarrow> 'a \<Rightarrow> 'a PointT" where
  "PointT_new x y = \<lparr>xP = x, yP = y\<rparr>"

text \<open>\<^verbatim>\<open>PointT() : x(0), y(0)\<close>\<close>

definition PointT_default :: "'a::zero PointT" where
  "PointT_default = \<lparr>xP = 0, yP = 0\<rparr>"

text \<open>\<^verbatim>\<open>bool empty() const { return x == 0 && y == 0; }\<close>\<close>

definition PointT_empty :: "'a::zero PointT \<Rightarrow> bool" where
  "PointT_empty p = (xP p = 0 \<and> yP p = 0)"

text \<open>\<^verbatim>\<open>SizeT(T dx, T dy) : dx(dx), dy(dy)\<close>\<close>

definition SizeT_new :: "'a \<Rightarrow> 'a \<Rightarrow> 'a SizeT" where
  "SizeT_new dx dy = \<lparr>dxS = dx, dyS = dy\<rparr>"

text \<open>\<^verbatim>\<open>bool IsEmpty() const { return dx == 0 || dy == 0; }\<close>\<close>

definition SizeT_IsEmpty :: "'a::zero SizeT \<Rightarrow> bool" where
  "SizeT_IsEmpty s = (dxS s = 0 \<or> dyS s = 0)"

subsection \<open>RectT: what does no arithmetic\<close>

text \<open>\<^verbatim>\<open>RectT() = default\<close>, with \<^verbatim>\<open>PointT<T> min{}; PointT<T> max{};\<close>\<close>

definition RectT_default :: "'a::zero RectT" where
  "RectT_default = \<lparr>minR = PointT_default, maxR = PointT_default\<rparr>"

text \<open>\<^verbatim>\<open>T X() const { return min.x; }\<close> and \<^verbatim>\<open>T Y() const { return min.y; }\<close>\<close>

definition X :: "'a RectT \<Rightarrow> 'a" where
  "X r = xP (minR r)"

definition Y :: "'a RectT \<Rightarrow> 'a" where
  "Y r = yP (minR r)"

subsection \<open>RectT at a linearly ordered ring\<close>

text \<open>
  \<^verbatim>\<open>RectT(T x, T y, T dx, T dy)\<close> stores \<^verbatim>\<open>min = (x, y)\<close> and
  \<^verbatim>\<open>max = (x + dx, y + dy)\<close>, with no normalisation.
\<close>

definition RectT_new :: "'a::linordered_idom \<Rightarrow> 'a \<Rightarrow> 'a \<Rightarrow> 'a \<Rightarrow> 'a RectT" where
  "RectT_new x y dx dy =
     \<lparr>minR = \<lparr>xP = x, yP = y\<rparr>, maxR = \<lparr>xP = x + dx, yP = y + dy\<rparr>\<rparr>"

definition Width :: "'a::linordered_idom RectT \<Rightarrow> 'a" where
  "Width r = xP (maxR r) - xP (minR r)"

definition Height :: "'a::linordered_idom RectT \<Rightarrow> 'a" where
  "Height r = yP (maxR r) - yP (minR r)"

definition Dx :: "'a::linordered_idom RectT \<Rightarrow> 'a" where
  "Dx r = xP (maxR r) - xP (minR r)"

definition Dy :: "'a::linordered_idom RectT \<Rightarrow> 'a" where
  "Dy r = yP (maxR r) - yP (minR r)"

text \<open>
  \<^verbatim>\<open>bool operator==(const RectT<T>& other) const\<close> compares \<^verbatim>\<open>X()\<close>, \<^verbatim>\<open>Y()\<close>,
  \<^verbatim>\<open>Dx()\<close> and \<^verbatim>\<open>Dy()\<close>.
\<close>

definition RectT_eq :: "'a::linordered_idom RectT \<Rightarrow> 'a RectT \<Rightarrow> bool" where
  "RectT_eq r other = (X r = X other \<and> Y r = Y other \<and> Dx r = Dx other \<and> Dy r = Dy other)"

text \<open>
  \<^verbatim>\<open>bool Contains(PointT<T> pt) const\<close>: four tests in the order of the source,
  each of which returns \<^verbatim>\<open>false\<close>.
\<close>

definition Contains :: "'a::linordered_idom RectT \<Rightarrow> 'a PointT \<Rightarrow> bool" where
  "Contains r pt =
     (let x = xP pt; y = yP pt
      in if x < X r then False
         else if x > X r + Dx r then False
         else if y < Y r then False
         else if y > Y r + Dy r then False
         else True)"

text \<open>
  \<^verbatim>\<open>RectT Intersect(RectT other) const\<close>; the locals \<^verbatim>\<open>_x\<close>, \<^verbatim>\<open>_y\<close>, \<^verbatim>\<open>_dx\<close>,
  \<^verbatim>\<open>_dy\<close> are \<open>x'\<close>, \<open>y'\<close>, \<open>dx'\<close>, \<open>dy'\<close>.
\<close>

definition Intersect :: "'a::linordered_idom RectT \<Rightarrow> 'a RectT \<Rightarrow> 'a RectT" where
  "Intersect r other =
     (let x' = max (X r) (X other);
          y' = max (Y r) (Y other);
          dx' = min (X r + Dx r) (X other + Dx other) - x';
          dy' = min (Y r + Dy r) (Y other + Dy other) - y'
      in if dx' \<le> 0 \<or> dy' \<le> 0 then RectT_default
         else RectT_new x' y' dx' dy')"

text \<open>
  The mutators change the receiver in place; the model returns the changed
  rectangle. \<^verbatim>\<open>void Offset(T _x, T _y) { min.x += _x; min.y += _y; }\<close>
\<close>

definition Offset :: "'a::linordered_idom RectT \<Rightarrow> 'a \<Rightarrow> 'a \<Rightarrow> 'a RectT" where
  "Offset r dx dy = r\<lparr>minR := \<lparr>xP = xP (minR r) + dx, yP = yP (minR r) + dy\<rparr>\<rparr>"

text \<open>
  \<^verbatim>\<open>void Inflate(T _x, T _y) { min.x -= _x; max.x += _x; min.y -= _y; max.y += _y; }\<close>
\<close>

definition Inflate :: "'a::linordered_idom RectT \<Rightarrow> 'a \<Rightarrow> 'a \<Rightarrow> 'a RectT" where
  "Inflate r dx dy =
     r\<lparr>minR := \<lparr>xP = xP (minR r) - dx, yP = yP (minR r) - dy\<rparr>,
       maxR := \<lparr>xP = xP (maxR r) + dx, yP = yP (maxR r) + dy\<rparr>\<rparr>"

subsection \<open>The numeric kinds\<close>

text \<open>
  A kind holds the operators of \<open>T\<close> that the templates use: \<open>+\<close>, binary and
  unary \<open>-\<close>, \<open><\<close> and \<open><=\<close>. The templates write \<open>a > b\<close> too, which is
  \<open>b < a\<close> for \<^verbatim>\<open>int\<close> and for \<^verbatim>\<open>double\<close>. The literal \<^verbatim>\<open>0\<close> is the zero of the
  type and \<^verbatim>\<open>==\<close> its equality.
\<close>

record 'a kind =
  kadd :: "'a \<Rightarrow> 'a \<Rightarrow> 'a"
  ksub :: "'a \<Rightarrow> 'a \<Rightarrow> 'a"
  kneg :: "'a \<Rightarrow> 'a"
  kless :: "'a \<Rightarrow> 'a \<Rightarrow> bool"
  kle :: "'a \<Rightarrow> 'a \<Rightarrow> bool"

text \<open>
  \<^verbatim>\<open>int\<close>: 32-bit words, compared as signed numbers. A sum or difference
  that leaves the range of \<^verbatim>\<open>int\<close> is undefined behaviour in C++; the kind
  gives it the value that wraps around, which is what the processor's
  instruction computes. Each property claimed of the code at \<open>int_kind\<close>
  below either evaluates the code at given numbers, or has hypotheses under
  which no operation of the code leaves the range, so that it does not depend
  on this choice.
\<close>

definition int_kind :: "i32 kind" where
  "int_kind = \<lparr>kadd = (+), ksub = (-), kneg = uminus, kless = (<s), kle = (\<le>s)\<rparr>"

text \<open>
  \<^verbatim>\<open>double\<close>: the finite doubles are real numbers, and the sum or difference
  of two doubles is the exact one rounded by \<open>fl\<close>. Negation and the
  comparisons are exact. NaN and the infinities are not values of this kind.
\<close>

definition double_kind :: "(real \<Rightarrow> real) \<Rightarrow> real kind" where
  "double_kind fl =
     \<lparr>kadd = (\<lambda>a b. fl (a + b)), ksub = (\<lambda>a b. fl (a - b)), kneg = uminus,
      kless = (<), kle = (\<le>)\<rparr>"

text \<open>
  The rounding of IEEE 754 binary64, to the nearest double with ties to the
  even one: \<open>rne\<close> rounds a real number to the nearest integer, ties to even,
  and \<open>fl64 x\<close> rounds \<open>x\<close> to a multiple of the spacing \<open>2\<^sup>e\<^sup>-\<^sup>5\<^sup>2\<close> of the doubles
  of its binade (\<open>e\<close> the exponent of \<open>x\<close>, at least \<open>-1022\<close>, below which
  the spacing is that of the subnormal numbers). A result of magnitude
  \<open>2\<^sup>1\<^sup>0\<^sup>2\<^sup>4\<close> or more is an infinity in binary64 and is outside of this model.
\<close>

definition rne :: "real \<Rightarrow> int" where
  "rne y =
     (let f = \<lfloor>y\<rfloor>; d = y - of_int f
      in if d < 1 / 2 then f
         else if 1 / 2 < d then f + 1
         else if even f then f else f + 1)"

definition fl64 :: "real \<Rightarrow> real" where
  "fl64 x =
     (if x = 0 then 0
      else let e = max \<lfloor>log 2 \<bar>x\<bar>\<rfloor> (- 1022);
               u = 2 powr (of_int e - 52)
           in of_int (rne (x / u)) * u)"

text \<open>
  What the theorems at \<^verbatim>\<open>double\<close> assume of the rounding \<open>fl\<close>, where they assume
  anything: it is monotone and odd, as rounding to nearest is.
\<close>

definition rounds :: "(real \<Rightarrow> real) \<Rightarrow> bool" where
  "rounds fl = ((\<forall>u v. u \<le> v \<longrightarrow> fl u \<le> fl v) \<and> (\<forall>u. fl (- u) = - fl u))"

text \<open>The exact operators, for comparison with the first reading.\<close>

definition exact_kind :: "'a::linordered_idom kind" where
  "exact_kind = \<lparr>kadd = (+), ksub = (-), kneg = uminus, kless = (<), kle = (\<le>)\<rparr>"

text \<open>
  \<^verbatim>\<open>std::max(a, b)\<close> is \<^verbatim>\<open>(a < b) ? b : a\<close> and \<^verbatim>\<open>std::min(a, b)\<close> is
  \<^verbatim>\<open>(b < a) ? b : a\<close>.
\<close>

definition kmax :: "'a kind \<Rightarrow> 'a \<Rightarrow> 'a \<Rightarrow> 'a" where
  "kmax K a b = (if kless K a b then b else a)"

definition kmin :: "'a kind \<Rightarrow> 'a \<Rightarrow> 'a \<Rightarrow> 'a" where
  "kmin K a b = (if kless K b a then b else a)"

subsection \<open>RectT at a numeric kind\<close>

text \<open>\<^verbatim>\<open>RectT(T x, T y, T dx, T dy)\<close>\<close>

definition RectT_new_at :: "'a kind \<Rightarrow> 'a \<Rightarrow> 'a \<Rightarrow> 'a \<Rightarrow> 'a \<Rightarrow> 'a RectT" where
  "RectT_new_at K x y dx dy =
     \<lparr>minR = \<lparr>xP = x, yP = y\<rparr>, maxR = \<lparr>xP = kadd K x dx, yP = kadd K y dy\<rparr>\<rparr>"

text \<open>
  \<^verbatim>\<open>Width()\<close> and \<^verbatim>\<open>Dx()\<close> return \<^verbatim>\<open>max.x - min.x\<close>, \<^verbatim>\<open>Height()\<close> and \<^verbatim>\<open>Dy()\<close>
  return \<^verbatim>\<open>max.y - min.y\<close>.
\<close>

definition Width_at :: "'a kind \<Rightarrow> 'a RectT \<Rightarrow> 'a" where
  "Width_at K r = ksub K (xP (maxR r)) (xP (minR r))"

definition Height_at :: "'a kind \<Rightarrow> 'a RectT \<Rightarrow> 'a" where
  "Height_at K r = ksub K (yP (maxR r)) (yP (minR r))"

definition Dx_at :: "'a kind \<Rightarrow> 'a RectT \<Rightarrow> 'a" where
  "Dx_at K r = ksub K (xP (maxR r)) (xP (minR r))"

definition Dy_at :: "'a kind \<Rightarrow> 'a RectT \<Rightarrow> 'a" where
  "Dy_at K r = ksub K (yP (maxR r)) (yP (minR r))"

text \<open>
  \<^verbatim>\<open>static RectT FromXY(T xs, T ys, T xe, T ye)\<close>: the assignments to the
  parameters \<^verbatim>\<open>xs\<close>, \<^verbatim>\<open>ys\<close> and to the locals \<^verbatim>\<open>dx\<close>, \<^verbatim>\<open>dy\<close> become
  the pairs \<open>(xs', dx')\<close> and \<open>(ys', dy')\<close>.
\<close>

definition FromXY_at :: "'a::zero kind \<Rightarrow> 'a \<Rightarrow> 'a \<Rightarrow> 'a \<Rightarrow> 'a \<Rightarrow> 'a RectT" where
  "FromXY_at K xs ys xe ye =
     (let dx = ksub K xe xs;
          (xs', dx') = (if kless K dx 0 then (xe, kneg K dx) else (xs, dx));
          dy = ksub K ye ys;
          (ys', dy') = (if kless K dy 0 then (ye, kneg K dy) else (ys, dy))
      in RectT_new_at K xs' ys' dx' dy')"

text \<open>\<^verbatim>\<open>static RectT FromXY(PointT<T> TL, PointT<T> BR)\<close>\<close>

definition FromXY_pts_at :: "'a::zero kind \<Rightarrow> 'a PointT \<Rightarrow> 'a PointT \<Rightarrow> 'a RectT" where
  "FromXY_pts_at K TL BR = FromXY_at K (xP TL) (yP TL) (xP BR) (yP BR)"

text \<open>\<^verbatim>\<open>bool operator==(const RectT<T>& other) const\<close>\<close>

definition RectT_eq_at :: "'a kind \<Rightarrow> 'a RectT \<Rightarrow> 'a RectT \<Rightarrow> bool" where
  "RectT_eq_at K r other =
     (X r = X other \<and> Y r = Y other \<and> Dx_at K r = Dx_at K other \<and> Dy_at K r = Dy_at K other)"

text \<open>\<^verbatim>\<open>bool Contains(PointT<T> pt) const\<close>\<close>

definition Contains_at :: "'a kind \<Rightarrow> 'a RectT \<Rightarrow> 'a PointT \<Rightarrow> bool" where
  "Contains_at K r pt =
     (let x = xP pt; y = yP pt
      in if kless K x (X r) then False
         else if kless K (kadd K (X r) (Dx_at K r)) x then False
         else if kless K y (Y r) then False
         else if kless K (kadd K (Y r) (Dy_at K r)) y then False
         else True)"

text \<open>\<^verbatim>\<open>RectT Intersect(RectT other) const\<close>\<close>

definition Intersect_at :: "'a::zero kind \<Rightarrow> 'a RectT \<Rightarrow> 'a RectT \<Rightarrow> 'a RectT" where
  "Intersect_at K r other =
     (let x' = kmax K (X r) (X other);
          y' = kmax K (Y r) (Y other);
          dx' = ksub K (kmin K (kadd K (X r) (Dx_at K r)) (kadd K (X other) (Dx_at K other))) x';
          dy' = ksub K (kmin K (kadd K (Y r) (Dy_at K r)) (kadd K (Y other) (Dy_at K other))) y'
      in if kle K dx' 0 \<or> kle K dy' 0 then RectT_default
         else RectT_new_at K x' y' dx' dy')"

text \<open>
  \<^verbatim>\<open>RectT Union(RectT other) const\<close>. The source calls \<^verbatim>\<open>other.x()\<close> in two
  places, and \<^verbatim>\<open>RectT\<close> declares no member \<^verbatim>\<open>x()\<close>. What that call returns is
  the parameter \<open>other_x\<close> of the model; the theorems about the branch that
  calls it say what they assume of it.
\<close>

definition Union_at :: "'a::zero kind \<Rightarrow> ('a RectT \<Rightarrow> 'a) \<Rightarrow> 'a RectT \<Rightarrow> 'a RectT \<Rightarrow> 'a RectT" where
  "Union_at K other_x r other =
     (if kle K (Dx_at K r) 0 \<and> kle K (Dy_at K r) 0 then other
      else if kle K (Dx_at K other) 0 \<and> kle K (Dy_at K other) 0 then r
      else
        let x' = kmin K (X r) (other_x other);
            y' = kmin K (Y r) (Y other);
            dx' = ksub K (kmax K (kadd K (X r) (Dx_at K r))
                                 (kadd K (other_x other) (Dx_at K other))) x';
            dy' = ksub K (kmax K (kadd K (Y r) (Dy_at K r))
                                 (kadd K (Y other) (Dy_at K other))) y'
        in RectT_new_at K x' y' dx' dy')"

subsection \<open>The range of int\<close>

text \<open>
  \<open>in_int k\<close>: the integer \<open>k\<close> is a value of \<^verbatim>\<open>int\<close>. \<open>extents_fit r\<close>: the
  differences \<^verbatim>\<open>max.x - min.x\<close> and \<^verbatim>\<open>max.y - min.y\<close> of a \<^verbatim>\<open>RectT<int>\<close> are
  values of \<^verbatim>\<open>int\<close>, so that \<^verbatim>\<open>Dx()\<close> and \<^verbatim>\<open>Dy()\<close> do not overflow on \<open>r\<close>.
\<close>

definition in_int :: "int \<Rightarrow> bool" where
  "in_int k = (- (2 ^ 31) \<le> k \<and> k < 2 ^ 31)"

definition extents_fit :: "RectI \<Rightarrow> bool" where
  "extents_fit r =
     (in_int (sint (xP (maxR r)) - sint (xP (minR r))) \<and>
      in_int (sint (yP (maxR r)) - sint (yP (minR r))))"

subsection \<open>RectT: rounding to integers\<close>




section \<open>The tree visitor\<close>

text \<open>
  A \<^verbatim>\<open>TreeItem*\<close> is \<open>None\<close> for \<^verbatim>\<open>nullptr\<close> and \<open>Some\<close> of the item otherwise.
  An item carries its data and the pointers that \<^verbatim>\<open>ChildAt(0)\<close>, ...,
  \<^verbatim>\<open>ChildAt(ChildCount() - 1)\<close> return. Calling a member function through
  \<^verbatim>\<open>nullptr\<close> is the error \<open>NullDeref\<close>.
\<close>

datatype error = NullDeref

datatype 'a TreeItem = TreeItem 'a "'a TreeItem option list"

type_synonym 'a TreeItemVisitor = "'a TreeItem \<Rightarrow> bool"

text \<open>
  \<^verbatim>\<open>static bool VisitTreeItemRec(TreeItem* ti, const TreeItemVisitor& visitor)\<close>.
  The block that calls the visitor is guarded by \<^verbatim>\<open>ti != nullptr\<close>; the
  statement \<^verbatim>\<open>int n = ti->ChildCount();\<close> follows the block, outside of the
  guard. For \<open>ti = None\<close> the block is skipped and \<^verbatim>\<open>ti->ChildCount()\<close> is the
  first thing that runs. \<open>visit_children\<close> is the \<^verbatim>\<open>for\<close> loop over the
  children.
\<close>

fun VisitTreeItemRec :: "'a TreeItem option \<Rightarrow> 'a TreeItemVisitor \<Rightarrow> error + bool"
  and visit_children :: "'a TreeItem option list \<Rightarrow> 'a TreeItemVisitor \<Rightarrow> error + bool" where
  "VisitTreeItemRec None visitor = Inl NullDeref"
| "VisitTreeItemRec (Some (TreeItem d cs)) visitor =
     (if \<not> visitor (TreeItem d cs) then Inr False
      else visit_children cs visitor)"
| "visit_children [] visitor = Inr True"
| "visit_children (child # cs) visitor =
     (case VisitTreeItemRec child visitor of
        Inl e \<Rightarrow> Inl e
      | Inr cont \<Rightarrow> if \<not> cont then Inr False else visit_children cs visitor)"

text \<open>\<^verbatim>\<open>bool VisitTreeModelItems(TreeItem* ti, const TreeItemVisitor& visitor)\<close>\<close>

definition VisitTreeModelItems :: "'a TreeItem option \<Rightarrow> 'a TreeItemVisitor \<Rightarrow> error + bool" where
  "VisitTreeModelItems ti visitor = VisitTreeItemRec ti visitor"


section \<open>Basic facts\<close>

subsection \<open>The exact reading\<close>

lemma accessors_RectT_new:
  "X (RectT_new x y dx dy) = x" "Y (RectT_new x y dx dy) = y"
  "Dx (RectT_new x y dx dy) = dx" "Dy (RectT_new x y dx dy) = dy"
  "Width (RectT_new x y dx dy) = dx" "Height (RectT_new x y dx dy) = dy"
  by (simp_all add: X_def Y_def Dx_def Dy_def Width_def Height_def RectT_new_def)

lemma accessors_RectT_default:
  "X RectT_default = 0" "Y RectT_default = 0"
  by (simp_all add: X_def Y_def RectT_default_def PointT_default_def)



lemma Offset_accessors:
  "X (Offset r dx dy) = X r + dx" "Y (Offset r dx dy) = Y r + dy"
  "Width (Offset r dx dy) = Width r - dx" "Height (Offset r dx dy) = Height r - dy"
  by (simp_all add: Offset_def X_def Y_def Width_def Height_def)

lemma Inflate_accessors:
  "X (Inflate r dx dy) = X r - dx" "Y (Inflate r dx dy) = Y r - dy"
  "Width (Inflate r dx dy) = Width r + dx + dx" "Height (Inflate r dx dy) = Height r + dy + dy"
  by (simp_all add: Inflate_def X_def Y_def Width_def Height_def)

subsection \<open>The operators of the kinds\<close>

lemma int_kind_ops:
  "kadd int_kind a b = a + b" "ksub int_kind a b = a - b" "kneg int_kind a = - a"
  "kless int_kind a b \<longleftrightarrow> sint a < sint b" "kle int_kind a b \<longleftrightarrow> sint a \<le> sint b"
  by (simp_all add: int_kind_def word_sless_alt word_sle_eq)

lemma double_kind_ops:
  "kadd (double_kind fl) a b = fl (a + b)" "ksub (double_kind fl) a b = fl (a - b)"
  "kneg (double_kind fl) a = - a"
  "kless (double_kind fl) a b \<longleftrightarrow> a < b" "kle (double_kind fl) a b \<longleftrightarrow> a \<le> b"
  by (simp_all add: double_kind_def)

lemma exact_kind_ops:
  "kadd exact_kind a b = a + b" "ksub exact_kind a b = a - b" "kneg exact_kind a = - a"
  "kless exact_kind a b \<longleftrightarrow> a < b" "kle exact_kind a b \<longleftrightarrow> a \<le> b"
  by (simp_all add: exact_kind_def)

text \<open>At the exact operators the second reading is the first.\<close>

lemma exact_reading:
  "RectT_new_at exact_kind x y dx dy = RectT_new x y dx dy"
  "Dx_at exact_kind r = Dx r" "Dy_at exact_kind r = Dy r"
  "Width_at exact_kind r = Width r" "Height_at exact_kind r = Height r"
  "Contains_at exact_kind r p = Contains r p"
  "Intersect_at exact_kind r other = Intersect r other"
  "RectT_eq_at exact_kind r other = RectT_eq r other"
  by (simp_all add: RectT_new_at_def RectT_new_def Dx_at_def Dx_def Dy_at_def Dy_def
      Width_at_def Width_def Height_at_def Height_def Contains_at_def Contains_def
      Intersect_at_def Intersect_def RectT_eq_at_def RectT_eq_def
      kmax_def kmin_def max_def min_def exact_kind_ops Let_def)

subsection \<open>32-bit integers\<close>

lemma sint_in_int: "in_int (sint (a :: i32))"
  using sint_ge [of a] sint_lt [of a] by (simp add: in_int_def)

lemma sint_inj: "sint (a :: i32) = sint b \<longleftrightarrow> a = b"
  by (auto intro: signed_word_eqI)

lemma sint_sub_fit:
  fixes a b :: i32
  shows "in_int (sint a - sint b) \<Longrightarrow> sint (a - b) = sint a - sint b"
  by (simp add: in_int_def sint_word_ariths signed_take_bit_int_eq_self)

lemma sint_add_fit:
  fixes a b :: i32
  shows "in_int (sint a + sint b) \<Longrightarrow> sint (a + b) = sint a + sint b"
  by (simp add: in_int_def sint_word_ariths signed_take_bit_int_eq_self)

lemma sint_neg_fit:
  fixes a :: i32
  shows "in_int (- sint a) \<Longrightarrow> sint (- a) = - sint a"
  by (simp add: in_int_def sint_word_ariths signed_take_bit_int_eq_self)


lemma sint_kmax: "sint (kmax int_kind a b) = max (sint a) (sint b)"
  by (simp add: kmax_def int_kind_ops max_def)

lemma sint_kmin: "sint (kmin int_kind a b) = min (sint a) (sint b)"
  by (simp add: kmin_def int_kind_ops min_def)

lemma kmax_int_commute: "kmax int_kind a b = kmax int_kind b a"
  using sint_inj [of "kmax int_kind a b" "kmax int_kind b a"]
  by (simp add: sint_kmax max.commute)

lemma kmin_int_commute: "kmin int_kind a b = kmin int_kind b a"
  using sint_inj [of "kmin int_kind a b" "kmin int_kind b a"]
  by (simp add: sint_kmin min.commute)

lemma kmax_double: "kmax (double_kind fl) a b = max a b"
  by (simp add: kmax_def double_kind_ops max_def)

lemma kmin_double: "kmin (double_kind fl) a b = min a b"
  by (simp add: kmin_def double_kind_ops min_def)

text \<open>
  In 32-bit arithmetic \<^verbatim>\<open>X() + Dx()\<close> is the stored \<^verbatim>\<open>max.x\<close>, and the extents
  of a constructed rectangle are the arguments of the constructor.
\<close>

lemma ends_int:
  "kadd int_kind (X r) (Dx_at int_kind r) = xP (maxR r)"
  "kadd int_kind (Y r) (Dy_at int_kind r) = yP (maxR r)"
  by (simp_all add: int_kind_ops X_def Y_def Dx_at_def Dy_at_def)


lemma accessors_RectT_new_at:
  "X (RectT_new_at K x y dx dy) = x" "Y (RectT_new_at K x y dx dy) = y"
  "xP (maxR (RectT_new_at K x y dx dy)) = kadd K x dx"
  "yP (maxR (RectT_new_at K x y dx dy)) = kadd K y dy"
  by (simp_all add: X_def Y_def RectT_new_at_def)

lemma extents_RectT_new_int:
  "Dx_at int_kind (RectT_new_at int_kind x y dx dy) = dx"
  "Dy_at int_kind (RectT_new_at int_kind x y dx dy) = dy"
  "Width_at int_kind (RectT_new_at int_kind x y dx dy) = dx"
  "Height_at int_kind (RectT_new_at int_kind x y dx dy) = dy"
  by (simp_all add: Dx_at_def Dy_at_def Width_at_def Height_at_def RectT_new_at_def int_kind_ops)

lemma sint_extents:
  assumes "extents_fit r"
  shows "sint (Dx_at int_kind r) = sint (xP (maxR r)) - sint (xP (minR r))"
    and "sint (Dy_at int_kind r) = sint (yP (maxR r)) - sint (yP (minR r))"
  using assms by (simp_all add: extents_fit_def Dx_at_def Dy_at_def int_kind_ops sint_sub_fit)

lemma Contains_at_int:
  "Contains_at int_kind r p \<longleftrightarrow>
     sint (xP (minR r)) \<le> sint (xP p) \<and> sint (xP p) \<le> sint (xP (maxR r)) \<and>
     sint (yP (minR r)) \<le> sint (yP p) \<and> sint (yP p) \<le> sint (yP (maxR r))"
  by (auto simp: Contains_at_def Let_def ends_int) (simp_all add: int_kind_ops X_def Y_def)

lemma Contains_at_double:
  "Contains_at (double_kind fl) r p \<longleftrightarrow>
     X r \<le> xP p \<and> xP p \<le> fl (X r + Dx_at (double_kind fl) r) \<and>
     Y r \<le> yP p \<and> yP p \<le> fl (Y r + Dy_at (double_kind fl) r)"
  by (auto simp: Contains_at_def Let_def double_kind_ops)

text \<open>
  The properties C7 and C8 of the exact reading hold at the two machine
  kinds as well: they rest on the order alone.
\<close>

lemma Intersect_at_commute_int:
  "Intersect_at int_kind a b = Intersect_at int_kind b a"
  by (simp add: Intersect_at_def Let_def kmax_int_commute [of "X a"] kmax_int_commute [of "Y a"]
      kmin_int_commute [of "kadd int_kind (X a) (Dx_at int_kind a)"]
      kmin_int_commute [of "kadd int_kind (Y a) (Dy_at int_kind a)"])

lemma Intersect_at_commute_double:
  "Intersect_at (double_kind fl) a b = Intersect_at (double_kind fl) b a"
  by (simp add: Intersect_at_def Let_def kmax_double kmin_double max.commute min.commute)

subsection \<open>Rounding to binary64\<close>

lemma rne_of_int: "rne (of_int m) = m"
  by (simp add: rne_def Let_def)

lemma rne_int_mult: "rne (of_int m * 2 ^ j) = m * 2 ^ j"
  using rne_of_int [of "m * 2 ^ j"] by simp

text \<open>The rounding of a number whose exponent \<open>e\<close> is known.\<close>

lemma fl64_eval:
  assumes "x \<noteq> 0" and "2 powr of_int e \<le> \<bar>x\<bar>" and "\<bar>x\<bar> < 2 powr (of_int e + 1)"
    and "- 1022 \<le> e"
  shows "fl64 x = of_int (rne (x / 2 powr (of_int e - 52))) * 2 powr (of_int e - 52)"
proof -
  have "\<lfloor>log 2 \<bar>x\<bar>\<rfloor> = e"
    using assms by (simp add: floor_log_eq_powr_iff)
  with assms show ?thesis by (simp add: fl64_def Let_def max_def)
qed

text \<open>
  A number \<open>m * 2\<^sup>k\<close> with \<open>\<bar>m\<bar> < 2\<^sup>5\<^sup>3\<close> and \<open>k \<ge> -1074\<close> is a double, and rounding
  leaves it as it is.
\<close>

lemma fl64_exact:
  assumes m: "\<bar>m\<bar> < 2 ^ 53" and k: "- 1074 \<le> k"
  shows "fl64 (of_int m * 2 powr of_int k) = of_int m * 2 powr of_int k"
proof (cases "m = 0")
  case True
  then show ?thesis by (simp add: fl64_def)
next
  case False
  let ?x = "of_int m * 2 powr of_int k :: real"
  have x0: "?x \<noteq> 0" using False by simp
  define e where "e = max \<lfloor>log 2 \<bar>?x\<bar>\<rfloor> (- 1022)"
  have "\<bar>?x\<bar> < 2 powr (53 + of_int k)"
  proof -
    have "\<bar>?x\<bar> = of_int \<bar>m\<bar> * 2 powr of_int k" by (simp add: abs_mult)
    also have "\<dots> < 2 ^ 53 * 2 powr of_int k"
    proof -
      have "real_of_int \<bar>m\<bar> < real_of_int (2 ^ 53)" using m by (simp only: of_int_less_iff)
      then show ?thesis by simp
    qed
    also have "\<dots> = 2 powr (53 + of_int k)" by (simp add: powr_add powr_numeral)
    finally show ?thesis .
  qed
  then have "log 2 \<bar>?x\<bar> < 53 + of_int k"
    using x0 by (simp add: log_less_iff)
  then have "\<lfloor>log 2 \<bar>?x\<bar>\<rfloor> \<le> 52 + k" by linarith
  with k have ek: "e \<le> 52 + k" by (simp add: e_def)
  define j where "j = nat (k + 52 - e)"
  have j: "of_int k - (of_int e - 52) = real j" using ek by (simp add: j_def)
  have "?x / 2 powr (of_int e - 52) = of_int m * 2 powr (of_int k - (of_int e - 52))"
    by (simp add: powr_diff)
  also have "\<dots> = of_int m * 2 ^ j" by (simp add: j powr_realpow)
  finally have q: "?x / 2 powr (of_int e - 52) = of_int m * 2 ^ j" .
  have "fl64 ?x = of_int (rne (?x / 2 powr (of_int e - 52))) * 2 powr (of_int e - 52)"
    using x0 by (simp add: fl64_def Let_def e_def)
  also have "\<dots> = of_int m * 2 ^ j * 2 powr (of_int e - 52)"
    by (simp only: q rne_int_mult) simp
  also have "\<dots> = ?x" using q by (auto simp: field_simps)
  finally show ?thesis .
qed

lemma fl64_int: "\<bar>m\<bar> < 2 ^ 53 \<Longrightarrow> fl64 (of_int m) = of_int m"
  using fl64_exact [of m 0] by simp

subsection \<open>FromXY at 32-bit integers\<close>

lemma FromXY_axis_int:
  assumes "in_int (sint e - sint s)"
  shows "(if kless int_kind (ksub int_kind e s) 0
          then (e, kneg int_kind (ksub int_kind e s)) else (s, ksub int_kind e s))
       = (if sint e < sint s then (e, s - e) else (s, e - s))"
  using assms by (simp add: int_kind_ops sint_sub_fit)

text \<open>
  When the two differences of the corner coordinates are values of \<^verbatim>\<open>int\<close>,
  \<^verbatim>\<open>FromXY\<close> stores the smaller coordinates in \<^verbatim>\<open>min\<close> and the larger ones in
  \<^verbatim>\<open>max\<close>.
\<close>

lemma FromXY_at_int:
  assumes "in_int (sint xe - sint xs)" and "in_int (sint ye - sint ys)"
  shows "FromXY_at int_kind xs ys xe ye =
    \<lparr>minR = \<lparr>xP = (if sint xe < sint xs then xe else xs),
              yP = (if sint ye < sint ys then ye else ys)\<rparr>,
     maxR = \<lparr>xP = (if sint xe < sint xs then xs else xe),
              yP = (if sint ye < sint ys then ys else ye)\<rparr>\<rparr>"
  unfolding FromXY_at_def Let_def FromXY_axis_int [OF assms(1)] FromXY_axis_int [OF assms(2)]
  by (simp add: RectT_new_at_def int_kind_ops)

text \<open>The values of \<open>fl64\<close> that the evaluations below meet.\<close>

lemma fl64_values:
  "fl64 1 = 1" "fl64 1025 = 1025" "fl64 (- 1023) = - 1023"
  "fl64 (4503599627370497 / 4503599627370496) = 4503599627370497 / 4503599627370496"
  "fl64 (1 / 4503599627370496) = 1 / 4503599627370496"
  "fl64 (1 / 8388608) = 1 / 8388608"
  "fl64 (1 / 16777216) = 1 / 16777216"
  "fl64 (8388607 / 8388608) = 8388607 / 8388608"
  "fl64 (16777215 / 16777216) = 16777215 / 16777216"
  "fl64 (16777213 / 16777216) = 16777213 / 16777216"
  using fl64_int [of 1] fl64_int [of 1025] fl64_int [of "- 1023"]
    fl64_exact [of 4503599627370497 "- 52"] fl64_exact [of 1 "- 52"]
    fl64_exact [of 1 "- 23"] fl64_exact [of 1 "- 24"]
    fl64_exact [of 8388607 "- 23"] fl64_exact [of 16777215 "- 24"]
    fl64_exact [of 16777213 "- 24"]
  by (simp_all add: powr_neg_numeral)

text \<open>
  A sum that is not a double: \<open>1025 + 2\<^sup>-\<^sup>5\<^sup>2\<close> lies between the doubles \<open>1025\<close> and
  \<open>1025 + 2\<^sup>-\<^sup>4\<^sup>2\<close>, and the nearer one is \<open>1025\<close>.
\<close>

lemma fl64_1025_ulp: "fl64 (4616189618054758401 / 4503599627370496) = 1025"
proof -
  let ?x = "4616189618054758401 / 4503599627370496 :: real"
  have "fl64 ?x = of_int (rne (?x / 2 powr (of_int 10 - 52))) * 2 powr (of_int 10 - 52)"
    by (rule fl64_eval) (simp_all add: powr_numeral)
  also have "(2::real) powr (of_int 10 - 52) = 1 / 2 ^ 42"
    by (simp add: powr_neg_numeral)
  also have "rne (?x / (1 / 2 ^ 42)) = 1025 * 2 ^ 42"
    by (simp add: rne_def Let_def)
  finally show ?thesis by simp
qed

text \<open>\<open>rne\<close> and \<open>fl64\<close> are monotone and odd.\<close>

lemma rne_bounds: "of_int (rne y) \<le> y + 1 / 2" "y - 1 / 2 \<le> of_int (rne y)"
  by (auto simp: rne_def Let_def) linarith+

lemma rne_mono: "y \<le> z \<Longrightarrow> rne y \<le> rne z"
proof -
  assume yz: "y \<le> z"
  have fy: "of_int \<lfloor>y\<rfloor> \<le> y" "y < of_int \<lfloor>y\<rfloor> + 1" by linarith+
  have fz: "of_int \<lfloor>z\<rfloor> \<le> z" "z < of_int \<lfloor>z\<rfloor> + 1" by linarith+
  have le: "\<lfloor>y\<rfloor> \<le> \<lfloor>z\<rfloor>" using yz by (rule floor_mono)
  show ?thesis
  proof (cases "\<lfloor>y\<rfloor> = \<lfloor>z\<rfloor>")
    case True
    with yz show ?thesis by (auto simp: rne_def Let_def)
  next
    case False
    with le have "\<lfloor>y\<rfloor> + 1 \<le> \<lfloor>z\<rfloor>" by simp
    moreover have "rne y \<le> \<lfloor>y\<rfloor> + 1" by (auto simp: rne_def Let_def)
    moreover have "\<lfloor>z\<rfloor> \<le> rne z" by (auto simp: rne_def Let_def)
    ultimately show ?thesis by linarith
  qed
qed

lemma rne_minus: "rne (- y) = - rne y"
proof (cases "y = of_int \<lfloor>y\<rfloor>")
  case True
  then obtain m where "y = of_int m" ..
  then show ?thesis using rne_of_int [of m] rne_of_int [of "- m"] by simp
next
  case False
  then have fl: "\<lfloor>- y\<rfloor> = - \<lfloor>y\<rfloor> - 1"
    by (simp add: floor_eq_iff) linarith
  have d: "0 < y - of_int \<lfloor>y\<rfloor>" "y - of_int \<lfloor>y\<rfloor> < 1"
    using False by linarith+
  show ?thesis
    using d by (auto simp: rne_def Let_def fl) 
qed


lemma fl64_zero: "fl64 0 = 0"
  by (simp add: fl64_def)

lemma fl64_minus: "fl64 (- x) = - fl64 x"
  by (simp add: fl64_def Let_def rne_minus)

lemma fl64_nonneg: "0 \<le> x \<Longrightarrow> 0 \<le> fl64 x"
proof -
  assume x: "0 \<le> x"
  have "rne 0 \<le> rne (x / u)" if "0 < u" for u :: real
    using x that by (intro rne_mono) simp
  then have "0 \<le> rne (x / u)" if "0 < u" for u :: real
    using that rne_of_int [of 0] by simp
  then show ?thesis by (simp add: fl64_def Let_def)
qed

lemma fl64_pos_unfold:
  assumes "0 < x" and "e = max \<lfloor>log 2 x\<rfloor> (- 1022)" and "u = 2 powr (of_int e - 52)"
  shows "fl64 x = of_int (rne (x / u)) * u"
  using assms by (simp add: fl64_def Let_def)

lemma fl64_upper:
  assumes "0 < x"
  shows "fl64 x \<le> 2 powr (of_int (max \<lfloor>log 2 x\<rfloor> (- 1022)) + 1)"
proof -
  define e where "e = max \<lfloor>log 2 x\<rfloor> (- 1022)"
  define u :: real where "u = 2 powr (of_int e - 52)"
  have u: "0 < u" by (simp add: u_def)
  have "log 2 x < of_int \<lfloor>log 2 x\<rfloor> + 1" by linarith
  also have "\<dots> \<le> of_int e + 1" by (simp add: e_def)
  finally have "x < 2 powr (of_int e + 1)"
    using assms by (simp add: log_less_iff)
  then have "x / u < 2 powr (of_int e + 1) / u" using u by (simp add: divide_strict_right_mono)
  also have "2 powr (of_int e + 1) / u = 2 ^ 53"
    by (simp add: u_def powr_diff [symmetric] powr_numeral)
  finally have "rne (x / u) \<le> rne (2 ^ 53)" by (intro rne_mono) simp
  then have "rne (x / u) \<le> 2 ^ 53" using rne_of_int [of "2 ^ 53"] by simp
  then have "real_of_int (rne (x / u)) \<le> 2 ^ 53"
    by (metis of_int_le_iff of_int_numeral of_int_power)
  then have "of_int (rne (x / u)) * u \<le> 2 ^ 53 * u" using u by simp
  also have "2 ^ 53 * u = 2 powr (of_int e + 1)"
    by (simp add: u_def powr_diff field_simps powr_add powr_numeral)
  finally show ?thesis
    unfolding fl64_pos_unfold [OF assms e_def u_def] e_def .
qed

lemma fl64_lower:
  assumes "0 < x" and "- 1022 \<le> \<lfloor>log 2 x\<rfloor>"
  shows "2 powr of_int \<lfloor>log 2 x\<rfloor> \<le> fl64 x"
proof -
  define e where "e = \<lfloor>log 2 x\<rfloor>"
  define u :: real where "u = 2 powr (of_int e - 52)"
  have u: "0 < u" by (simp add: u_def)
  have "of_int e \<le> log 2 x" by (simp add: e_def)
  then have "2 powr of_int e \<le> x"
    using assms by (simp add: le_log_iff)
  then have "2 powr of_int e / u \<le> x / u" using u by (simp add: divide_right_mono)
  moreover have "2 powr of_int e / u = 2 ^ 52"
    by (simp add: u_def powr_diff [symmetric] powr_numeral)
  ultimately have "rne (2 ^ 52) \<le> rne (x / u)" by (intro rne_mono) simp
  then have "2 ^ 52 \<le> rne (x / u)" using rne_of_int [of "2 ^ 52"] by simp
  then have "(2 ^ 52 :: real) \<le> real_of_int (rne (x / u))"
    by (metis of_int_le_iff of_int_numeral of_int_power)
  then have "2 ^ 52 * u \<le> of_int (rne (x / u)) * u" using u by simp
  moreover have "2 ^ 52 * u = 2 powr of_int e"
    by (simp add: u_def powr_diff field_simps powr_numeral)
  ultimately have le: "2 powr of_int e \<le> of_int (rne (x / u)) * u" by simp
  have em: "e = max \<lfloor>log 2 x\<rfloor> (- 1022)" using assms(2) by (simp add: e_def)
  from le show ?thesis
    unfolding fl64_pos_unfold [OF assms(1) em u_def] e_def .
qed

lemma fl64_mono_pos:
  assumes "0 < x" and "x \<le> y"
  shows "fl64 x \<le> fl64 y"
proof -
  define ex where "ex = max \<lfloor>log 2 x\<rfloor> (- 1022)"
  define ey where "ey = max \<lfloor>log 2 y\<rfloor> (- 1022)"
  have y: "0 < y" using assms by simp
  have "log 2 x \<le> log 2 y" using assms by simp
  then have "\<lfloor>log 2 x\<rfloor> \<le> \<lfloor>log 2 y\<rfloor>" by (rule floor_mono)
  then have le: "ex \<le> ey" by (simp add: ex_def ey_def)
  show ?thesis
  proof (cases "ex = ey")
    case True
    define u :: real where "u = 2 powr (of_int ex - 52)"
    have u: "0 < u" by (simp add: u_def)
    have "x / u \<le> y / u" using assms u by (simp add: divide_right_mono)
    then have "rne (x / u) \<le> rne (y / u)" by (rule rne_mono)
    then have "of_int (rne (x / u)) * u \<le> of_int (rne (y / u)) * u" using u by simp
    moreover have "ey = max \<lfloor>log 2 y\<rfloor> (- 1022)" by (simp add: ey_def)
    moreover have "u = 2 powr (of_int ey - 52)" using True by (simp add: u_def)
    ultimately show ?thesis
      unfolding fl64_pos_unfold [OF assms(1) ex_def u_def]
        fl64_pos_unfold [OF y \<open>ey = max \<lfloor>log 2 y\<rfloor> (- 1022)\<close> \<open>u = 2 powr (of_int ey - 52)\<close>]
      by simp
  next
    case False
    with le have lt: "ex + 1 \<le> ey" by simp
    then have "- 1022 < ey" by (simp add: ex_def)
    then have ey: "ey = \<lfloor>log 2 y\<rfloor>" "- 1022 \<le> \<lfloor>log 2 y\<rfloor>" by (simp_all add: ey_def max_def split: if_splits)
    have "fl64 x \<le> 2 powr (of_int ex + 1)"
      using fl64_upper [OF assms(1)] by (simp add: ex_def)
    also have "\<dots> \<le> 2 powr of_int ey"
      using lt by (metis of_int_le_iff of_int_add of_int_1 powr_mono one_le_numeral)
    also have "\<dots> \<le> fl64 y"
      using fl64_lower [OF y ey(2)] by (simp add: ey(1))
    finally show ?thesis .
  qed
qed

lemma fl64_mono: "x \<le> y \<Longrightarrow> fl64 x \<le> fl64 y"
proof -
  assume xy: "x \<le> y"
  consider "0 < x" | "x \<le> 0" "0 \<le> y" | "y < 0" by linarith
  then show ?thesis
  proof cases
    case 1
    then show ?thesis using xy by (rule fl64_mono_pos)
  next
    case 2
    have "fl64 x \<le> 0" using fl64_nonneg [of "- x"] 2(1) by (simp add: fl64_minus)
    moreover have "0 \<le> fl64 y" using 2(2) by (rule fl64_nonneg)
    ultimately show ?thesis by simp
  next
    case 3
    then have "0 < - y" "- y \<le> - x" using xy by simp_all
    then have "fl64 (- y) \<le> fl64 (- x)" by (rule fl64_mono_pos)
    then show ?thesis by (simp add: fl64_minus)
  qed
qed

lemma rounds_fl64: "rounds fl64"
  by (simp add: rounds_def fl64_mono fl64_minus)

lemma rounds_zero: "rounds fl \<Longrightarrow> fl 0 = 0"
  by (metis rounds_def add.inverse_neutral neg_equal_zero)

lemma rounds_mono: "rounds fl \<Longrightarrow> u \<le> v \<Longrightarrow> fl u \<le> fl v"
  by (simp add: rounds_def)

lemma rounds_minus: "rounds fl \<Longrightarrow> fl (- u) = - fl u"
  by (simp add: rounds_def)

text \<open>
  The visitor on items that are there: a leaf gives the visitor's answer, a
  visitor that answers \<^verbatim>\<open>false\<close> stops the walk, and a null pointer among the
  children is dereferenced by the recursive call as a null root is.
\<close>

lemma VisitTreeItemRec_leaf:
  "VisitTreeItemRec (Some (TreeItem d [])) visitor = Inr (visitor (TreeItem d []))"
  by simp

lemma VisitTreeItemRec_stops:
  "\<not> visitor (TreeItem d cs) \<Longrightarrow> VisitTreeItemRec (Some (TreeItem d cs)) visitor = Inr False"
  by simp

lemma VisitTreeItemRec_null_child:
  "visitor (TreeItem d (None # cs)) \<Longrightarrow>
   VisitTreeItemRec (Some (TreeItem d (None # cs))) visitor = Inl NullDeref"
  by simp

section \<open>Offset\<close>

text \<open>
  C1. The property: for every rectangle \<open>r\<close> and all offsets \<open>dx\<close>, \<open>dy\<close>,
  \<^verbatim>\<open>Offset(dx, dy)\<close> moves both corners, so that \<^verbatim>\<open>X()\<close> changes by \<open>dx\<close>, \<^verbatim>\<open>Y()\<close>
  by \<open>dy\<close>, and \<^verbatim>\<open>Width()\<close> and \<^verbatim>\<open>Height()\<close> stay as they were.

  \<^verbatim>\<open>Offset\<close> as written adds the offsets to \<^verbatim>\<open>min\<close> and leaves \<^verbatim>\<open>max\<close> where it
  was, although \<^verbatim>\<open>Inflate\<close> beside it adjusts both corners and the constructor
  \<^verbatim>\<open>RectT(x, y, dx, dy)\<close> derives \<^verbatim>\<open>max\<close> from \<^verbatim>\<open>min\<close>. The theorem evaluates
  the code on the rectangle \<open>(0, 0, 10, 10)\<close> moved by \<open>(5, 5)\<close>: the origin
  moves to \<open>(5, 5)\<close>, and the width and the height shrink from 10 to 5.
  \<open>Offset_accessors\<close> above is the same fact for every input: the extents
  change by \<open>- dx\<close> and \<open>- dy\<close>.
\<close>

theorem Offset_changes_extents:
  "X (Offset (RectT_new (0::int) 0 10 10) 5 5) = 5 \<and>
   Y (Offset (RectT_new (0::int) 0 10 10) 5 5) = 5 \<and>
   Width (RectT_new (0::int) 0 10 10) = 10 \<and>
   Height (RectT_new (0::int) 0 10 10) = 10 \<and>
   Width (Offset (RectT_new (0::int) 0 10 10) 5 5) = 5 \<and>
   Height (Offset (RectT_new (0::int) 0 10 10) 5 5) = 5"
  by (simp add: Offset_accessors accessors_RectT_new)

section \<open>Round\<close>




section \<open>Union\<close>

text \<open>
  The branch of \<^verbatim>\<open>Union\<close> after the two guards, at \<^verbatim>\<open>T = int\<close> and with
  \<^verbatim>\<open>other.x()\<close> returning \<^verbatim>\<open>other.X()\<close>: the result starts at the smaller starts,
  and its stored \<^verbatim>\<open>max\<close> is the larger of the two stored \<^verbatim>\<open>max\<close>.
\<close>

lemma Union_at_int:
  assumes "\<not> (sint (Dx_at int_kind a) \<le> 0 \<and> sint (Dy_at int_kind a) \<le> 0)"
    and "\<not> (sint (Dx_at int_kind b) \<le> 0 \<and> sint (Dy_at int_kind b) \<le> 0)"
    and "other_x b = X b"
  shows "Union_at int_kind other_x a b =
    \<lparr>minR = \<lparr>xP = kmin int_kind (X a) (X b), yP = kmin int_kind (Y a) (Y b)\<rparr>,
     maxR = \<lparr>xP = kmax int_kind (xP (maxR a)) (xP (maxR b)),
              yP = kmax int_kind (yP (maxR a)) (yP (maxR b))\<rparr>\<rparr>"
proof -
  have ga: "\<not> (kle int_kind (Dx_at int_kind a) 0 \<and> kle int_kind (Dy_at int_kind a) 0)"
    using assms(1) by (simp add: int_kind_ops)
  have gb: "\<not> (kle int_kind (Dx_at int_kind b) 0 \<and> kle int_kind (Dy_at int_kind b) 0)"
    using assms(2) by (simp add: int_kind_ops)
  show ?thesis
    unfolding Union_at_def Let_def
    by (simp only: ga gb if_False assms(3) ends_int) (simp add: RectT_new_at_def int_kind_ops)
qed

text \<open>
  The example of rounding at \<^verbatim>\<open>T = double\<close>: the union of \<open>(1, 0, 2\<^sup>-\<^sup>5\<^sup>2, 1)\<close> and
  \<open>(-1024, 0, 1, 1)\<close>, with \<^verbatim>\<open>other.x()\<close> returning \<^verbatim>\<open>other.X()\<close>. No guard fires.
  The larger end is \<open>1 + 2\<^sup>-\<^sup>5\<^sup>2\<close>, the width \<open>1 + 2\<^sup>-\<^sup>5\<^sup>2 - (-1024)\<close> is rounded to
  \<open>1025\<close>, and the constructor stores the end \<open>-1024 + 1025 = 1\<close>.
\<close>

lemma Union_double_operands:
  "RectT_new_at (double_kind fl64) 1 0 (1 / 2 ^ 52) 1
     = \<lparr>minR = \<lparr>xP = 1, yP = 0\<rparr>,
        maxR = \<lparr>xP = 4503599627370497 / 4503599627370496, yP = 1\<rparr>\<rparr>"
  "RectT_new_at (double_kind fl64) (- 1024) 0 1 1
     = \<lparr>minR = \<lparr>xP = - 1024, yP = 0\<rparr>, maxR = \<lparr>xP = - 1023, yP = 1\<rparr>\<rparr>"
  by (simp_all add: RectT_new_at_def double_kind_ops fl64_values)

lemma Union_double_example:
  "Union_at (double_kind fl64) X
     (RectT_new_at (double_kind fl64) 1 0 (1 / 2 ^ 52) 1)
     (RectT_new_at (double_kind fl64) (- 1024) 0 1 1)
   = \<lparr>minR = \<lparr>xP = - 1024, yP = 0\<rparr>, maxR = \<lparr>xP = 1, yP = 1\<rparr>\<rparr>"
  unfolding Union_double_operands
  by (simp add: Union_at_def Let_def Dx_at_def Dy_at_def X_def Y_def RectT_new_at_def
      double_kind_ops kmax_double kmin_double fl64_values fl64_1025_ulp)

text \<open>
  Containment in \<^verbatim>\<open>Union\<close> at \<^verbatim>\<open>T = int\<close>, for operands on which nothing
  overflows.
\<close>

lemma Union_contains_at_int:
  fixes a b :: RectI
  assumes "extents_fit a" and "extents_fit b"
    and "in_int (max (sint (X a) + sint (Dx_at int_kind a))
                     (sint (X b) + sint (Dx_at int_kind b))
                 - min (sint (X a)) (sint (X b)))"
    and "in_int (max (sint (Y a) + sint (Dy_at int_kind a))
                     (sint (Y b) + sint (Dy_at int_kind b))
                 - min (sint (Y a)) (sint (Y b)))"
    and "other_x b = X b"
    and "(Contains_at int_kind a p \<and>
            (0 < sint (Dx_at int_kind a) \<or> 0 < sint (Dy_at int_kind a))) \<or>
         (Contains_at int_kind b p \<and>
            (0 < sint (Dx_at int_kind b) \<or> 0 < sint (Dy_at int_kind b)))"
  shows "Contains_at int_kind (Union_at int_kind other_x a b) p"
proof (cases "sint (Dx_at int_kind a) \<le> 0 \<and> sint (Dy_at int_kind a) \<le> 0")
  case True
  with assms(6) have "Contains_at int_kind b p" by auto
  with True show ?thesis by (simp add: Union_at_def int_kind_ops)
next
  case na: False
  show ?thesis
  proof (cases "sint (Dx_at int_kind b) \<le> 0 \<and> sint (Dy_at int_kind b) \<le> 0")
    case True
    with assms(6) have "Contains_at int_kind a p" by auto
    with na True show ?thesis by (auto simp: Union_at_def int_kind_ops)
  next
    case nb: False
    from assms(6) have "Contains_at int_kind a p \<or> Contains_at int_kind b p" by blast
    then show ?thesis
      unfolding Union_at_int [where other_x = other_x, OF na nb assms(5)]
      by (auto simp: Contains_at_int sint_kmax sint_kmin X_def Y_def)
  qed
qed

text \<open>
  Containment in \<^verbatim>\<open>Union\<close> at \<^verbatim>\<open>T = double\<close>, when on each axis the larger end
  is a double and its distance from the smaller start is computed without
  rounding.
\<close>

lemma Union_contains_at_double:
  fixes c d :: RectD
  assumes x: "other_x d = X d"
    and ex: "fl (max (fl (X c + Dx_at (double_kind fl) c)) (fl (X d + Dx_at (double_kind fl) d)))
               = max (fl (X c + Dx_at (double_kind fl) c)) (fl (X d + Dx_at (double_kind fl) d))"
    and wx: "fl (max (fl (X c + Dx_at (double_kind fl) c)) (fl (X d + Dx_at (double_kind fl) d))
                 - min (X c) (X d))
               = max (fl (X c + Dx_at (double_kind fl) c)) (fl (X d + Dx_at (double_kind fl) d))
                 - min (X c) (X d)"
    and ey: "fl (max (fl (Y c + Dy_at (double_kind fl) c)) (fl (Y d + Dy_at (double_kind fl) d)))
               = max (fl (Y c + Dy_at (double_kind fl) c)) (fl (Y d + Dy_at (double_kind fl) d))"
    and wy: "fl (max (fl (Y c + Dy_at (double_kind fl) c)) (fl (Y d + Dy_at (double_kind fl) d))
                 - min (Y c) (Y d))
               = max (fl (Y c + Dy_at (double_kind fl) c)) (fl (Y d + Dy_at (double_kind fl) d))
                 - min (Y c) (Y d)"
    and p: "(Contains_at (double_kind fl) c q \<and>
               (0 < Dx_at (double_kind fl) c \<or> 0 < Dy_at (double_kind fl) c)) \<or>
            (Contains_at (double_kind fl) d q \<and>
               (0 < Dx_at (double_kind fl) d \<or> 0 < Dy_at (double_kind fl) d))"
  shows "Contains_at (double_kind fl) (Union_at (double_kind fl) other_x c d) q"
proof -
  let ?D = "double_kind fl"
  let ?Ex = "max (fl (X c + Dx_at ?D c)) (fl (X d + Dx_at ?D d))"
  let ?Ey = "max (fl (Y c + Dy_at ?D c)) (fl (Y d + Dy_at ?D d))"
  let ?mx = "min (X c) (X d)" and ?my = "min (Y c) (Y d)"
  show ?thesis
  proof (cases "Dx_at ?D c \<le> 0 \<and> Dy_at ?D c \<le> 0")
    case True
    with p have "Contains_at ?D d q" by auto
    with True show ?thesis by (simp add: Union_at_def double_kind_ops)
  next
    case nc: False
    show ?thesis
    proof (cases "Dx_at ?D d \<le> 0 \<and> Dy_at ?D d \<le> 0")
      case True
      with p have "Contains_at ?D c q" by auto
      with nc True show ?thesis by (auto simp: Union_at_def double_kind_ops)
    next
      case nd: False
      have gc: "\<not> (kle ?D (Dx_at ?D c) 0 \<and> kle ?D (Dy_at ?D c) 0)"
        using nc by (simp add: double_kind_ops)
      have gd: "\<not> (kle ?D (Dx_at ?D d) 0 \<and> kle ?D (Dy_at ?D d) 0)"
        using nd by (simp add: double_kind_ops)
      have "Union_at ?D other_x c d =
          RectT_new_at ?D ?mx ?my (fl (?Ex - ?mx)) (fl (?Ey - ?my))"
        unfolding Union_at_def Let_def
        by (simp only: gc gd if_False x) (simp only: kmin_double kmax_double double_kind_ops)
      then have U: "Union_at ?D other_x c d = RectT_new_at ?D ?mx ?my (?Ex - ?mx) (?Ey - ?my)"
        by (simp only: wx wy)
      have sx: "?mx + (?Ex - ?mx) = ?Ex" and sy: "?my + (?Ey - ?my) = ?Ey"
        by simp_all
      have R: "Union_at ?D other_x c d = \<lparr>minR = \<lparr>xP = ?mx, yP = ?my\<rparr>, maxR = \<lparr>xP = ?Ex, yP = ?Ey\<rparr>\<rparr>"
        unfolding U RectT_new_at_def by (simp only: double_kind_ops sx sy ex ey)
      note u = X_def Y_def Dx_at_def Dy_at_def double_kind_ops
      have inside: "Contains_at ?D (Union_at ?D other_x c d) q \<longleftrightarrow>
          ?mx \<le> xP q \<and> xP q \<le> ?Ex \<and> ?my \<le> yP q \<and> yP q \<le> ?Ey"
        unfolding R Contains_at_double
        by (simp only: X_def Y_def Dx_at_def Dy_at_def double_kind_ops RectT.simps PointT.simps
            wx [unfolded u] wy [unfolded u] sx [unfolded u] sy [unfolded u]
            ex [unfolded u] ey [unfolded u])
      from p have "Contains_at ?D c q \<or> Contains_at ?D d q" by blast
      then show ?thesis
        unfolding inside by (auto simp: Contains_at_double)
    qed
  qed
qed

text \<open>
  C3, as stated: for all rectangles \<open>a\<close>, \<open>b\<close> and every point \<open>p\<close>, if \<open>a\<close>
  contains \<open>p\<close> or \<open>b\<close> contains \<open>p\<close>, then \<^verbatim>\<open>Union(a, b)\<close> contains \<open>p\<close>. This
  fails in two ways.
  \<^item> For a rectangle of width 0 and height 0: \<^verbatim>\<open>Contains\<close> is closed, so
    \<open>(0, 0, 0, 0)\<close> contains the point \<open>(0, 0)\<close>, while the guard of \<^verbatim>\<open>Union\<close>
    takes it as empty and returns the other operand \<open>(5, 5, 1, 1)\<close>, which
    does not contain that point.
  \<^item> At \<^verbatim>\<open>T = double\<close>, by rounding: \<open>(1, 0, 2\<^sup>-\<^sup>5\<^sup>2, 1)\<close> has a positive width and
    contains \<open>(1 + 2\<^sup>-\<^sup>5\<^sup>2, 1/2)\<close>, and its union with \<open>(-1024, 0, 1, 1)\<close> ends at
    \<open>1\<close>, left of that point.
\<close>

theorem Union_contains_counterexample:
  "Contains_at int_kind (RectT_new_at int_kind 0 0 0 0) (PointT_new 0 0) \<and>
   Union_at int_kind X (RectT_new_at int_kind 0 0 0 0) (RectT_new_at int_kind 5 5 1 1)
     = RectT_new_at int_kind 5 5 1 1 \<and>
   \<not> Contains_at int_kind
       (Union_at int_kind X (RectT_new_at int_kind 0 0 0 0) (RectT_new_at int_kind 5 5 1 1))
       (PointT_new 0 0) \<and>
   Contains_at (double_kind fl64) (RectT_new_at (double_kind fl64) 1 0 (1 / 2 ^ 52) 1)
     (PointT_new (1 + 1 / 2 ^ 52) (1 / 2)) \<and>
   0 < Dx_at (double_kind fl64) (RectT_new_at (double_kind fl64) 1 0 (1 / 2 ^ 52) 1) \<and>
   \<not> Contains_at (double_kind fl64)
       (Union_at (double_kind fl64) X
          (RectT_new_at (double_kind fl64) 1 0 (1 / 2 ^ 52) 1)
          (RectT_new_at (double_kind fl64) (- 1024) 0 1 1))
       (PointT_new (1 + 1 / 2 ^ 52) (1 / 2))"
proof -
  have "Contains_at int_kind (RectT_new_at int_kind 0 0 0 0) (PointT_new 0 0)"
    by (simp add: Contains_at_int RectT_new_at_def PointT_new_def int_kind_ops)
  moreover have u: "Union_at int_kind X (RectT_new_at int_kind 0 0 0 0)
      (RectT_new_at int_kind 5 5 1 1) = RectT_new_at int_kind 5 5 1 1"
    by (simp add: Union_at_def extents_RectT_new_int int_kind_ops)
  moreover have "\<not> Contains_at int_kind
      (Union_at int_kind X (RectT_new_at int_kind 0 0 0 0) (RectT_new_at int_kind 5 5 1 1))
      (PointT_new 0 0)"
    unfolding u by (simp add: Contains_at_int RectT_new_at_def PointT_new_def int_kind_ops)
  moreover have "Contains_at (double_kind fl64)
      (RectT_new_at (double_kind fl64) 1 0 (1 / 2 ^ 52) 1) (PointT_new (1 + 1 / 2 ^ 52) (1 / 2))"
    unfolding Union_double_operands
    by (simp add: Contains_at_double Dx_at_def Dy_at_def X_def Y_def PointT_new_def
        double_kind_ops fl64_values)
  moreover have "0 < Dx_at (double_kind fl64) (RectT_new_at (double_kind fl64) 1 0 (1 / 2 ^ 52) 1)"
    unfolding Union_double_operands
    by (simp add: Dx_at_def double_kind_ops fl64_values)
  moreover have "\<not> Contains_at (double_kind fl64)
       (Union_at (double_kind fl64) X
          (RectT_new_at (double_kind fl64) 1 0 (1 / 2 ^ 52) 1)
          (RectT_new_at (double_kind fl64) (- 1024) 0 1 1))
       (PointT_new (1 + 1 / 2 ^ 52) (1 / 2))"
    unfolding Union_double_example
    by (simp add: Contains_at_double Dx_at_def Dy_at_def X_def Y_def PointT_new_def
        double_kind_ops fl64_values)
  ultimately show ?thesis by blast
qed

text \<open>
  C3, amended: with \<^verbatim>\<open>other.x()\<close> returning \<^verbatim>\<open>other.X()\<close>, for all rectangles \<open>a\<close>
  and \<open>b\<close> and every point \<open>p\<close>: if \<open>a\<close> contains \<open>p\<close> and the width or the
  height of \<open>a\<close> is positive, or \<open>b\<close> contains \<open>p\<close> and the width or the height
  of \<open>b\<close> is positive, then \<^verbatim>\<open>Union(a, b)\<close> contains \<open>p\<close>,
  \<^item> at \<^verbatim>\<open>T = int\<close> for operands on which no operation of \<^verbatim>\<open>Union\<close> overflows
    (the extents of \<open>a\<close> and of \<open>b\<close> are values of \<^verbatim>\<open>int\<close>, and so are the width
    and the height between the smaller starts and the larger ends);
  \<^item> at \<^verbatim>\<open>T = double\<close> for operands with finite coordinates such that on each
    axis the larger end is a double and its distance from the smaller start
    is computed without rounding.
\<close>

theorem Union_contains_kinds:
  fixes a b :: RectI and c d :: RectD
  shows
  "(extents_fit a \<and> extents_fit b \<and>
    in_int (max (sint (X a) + sint (Dx_at int_kind a)) (sint (X b) + sint (Dx_at int_kind b))
            - min (sint (X a)) (sint (X b))) \<and>
    in_int (max (sint (Y a) + sint (Dy_at int_kind a)) (sint (Y b) + sint (Dy_at int_kind b))
            - min (sint (Y a)) (sint (Y b))) \<and>
    xi b = X b \<and>
    ((Contains_at int_kind a p \<and>
        (0 < sint (Dx_at int_kind a) \<or> 0 < sint (Dy_at int_kind a))) \<or>
     (Contains_at int_kind b p \<and>
        (0 < sint (Dx_at int_kind b) \<or> 0 < sint (Dy_at int_kind b))))
    \<longrightarrow> Contains_at int_kind (Union_at int_kind xi a b) p) \<and>
   (xd d = X d \<and>
    fl (max (fl (X c + Dx_at (double_kind fl) c)) (fl (X d + Dx_at (double_kind fl) d)))
      = max (fl (X c + Dx_at (double_kind fl) c)) (fl (X d + Dx_at (double_kind fl) d)) \<and>
    fl (max (fl (X c + Dx_at (double_kind fl) c)) (fl (X d + Dx_at (double_kind fl) d))
        - min (X c) (X d))
      = max (fl (X c + Dx_at (double_kind fl) c)) (fl (X d + Dx_at (double_kind fl) d))
        - min (X c) (X d) \<and>
    fl (max (fl (Y c + Dy_at (double_kind fl) c)) (fl (Y d + Dy_at (double_kind fl) d)))
      = max (fl (Y c + Dy_at (double_kind fl) c)) (fl (Y d + Dy_at (double_kind fl) d)) \<and>
    fl (max (fl (Y c + Dy_at (double_kind fl) c)) (fl (Y d + Dy_at (double_kind fl) d))
        - min (Y c) (Y d))
      = max (fl (Y c + Dy_at (double_kind fl) c)) (fl (Y d + Dy_at (double_kind fl) d))
        - min (Y c) (Y d) \<and>
    ((Contains_at (double_kind fl) c q \<and>
        (0 < Dx_at (double_kind fl) c \<or> 0 < Dy_at (double_kind fl) c)) \<or>
     (Contains_at (double_kind fl) d q \<and>
        (0 < Dx_at (double_kind fl) d \<or> 0 < Dy_at (double_kind fl) d)))
    \<longrightarrow> Contains_at (double_kind fl) (Union_at (double_kind fl) xd c d) q)"
proof (intro conjI impI)
  assume "extents_fit a \<and> extents_fit b \<and>
    in_int (max (sint (X a) + sint (Dx_at int_kind a)) (sint (X b) + sint (Dx_at int_kind b))
            - min (sint (X a)) (sint (X b))) \<and>
    in_int (max (sint (Y a) + sint (Dy_at int_kind a)) (sint (Y b) + sint (Dy_at int_kind b))
            - min (sint (Y a)) (sint (Y b))) \<and>
    xi b = X b \<and>
    ((Contains_at int_kind a p \<and>
        (0 < sint (Dx_at int_kind a) \<or> 0 < sint (Dy_at int_kind a))) \<or>
     (Contains_at int_kind b p \<and>
        (0 < sint (Dx_at int_kind b) \<or> 0 < sint (Dy_at int_kind b))))"
  then show "Contains_at int_kind (Union_at int_kind xi a b) p"
    using Union_contains_at_int [of a b xi p] by blast
next
  assume "xd d = X d \<and>
    fl (max (fl (X c + Dx_at (double_kind fl) c)) (fl (X d + Dx_at (double_kind fl) d)))
      = max (fl (X c + Dx_at (double_kind fl) c)) (fl (X d + Dx_at (double_kind fl) d)) \<and>
    fl (max (fl (X c + Dx_at (double_kind fl) c)) (fl (X d + Dx_at (double_kind fl) d))
        - min (X c) (X d))
      = max (fl (X c + Dx_at (double_kind fl) c)) (fl (X d + Dx_at (double_kind fl) d))
        - min (X c) (X d) \<and>
    fl (max (fl (Y c + Dy_at (double_kind fl) c)) (fl (Y d + Dy_at (double_kind fl) d)))
      = max (fl (Y c + Dy_at (double_kind fl) c)) (fl (Y d + Dy_at (double_kind fl) d)) \<and>
    fl (max (fl (Y c + Dy_at (double_kind fl) c)) (fl (Y d + Dy_at (double_kind fl) d))
        - min (Y c) (Y d))
      = max (fl (Y c + Dy_at (double_kind fl) c)) (fl (Y d + Dy_at (double_kind fl) d))
        - min (Y c) (Y d) \<and>
    ((Contains_at (double_kind fl) c q \<and>
        (0 < Dx_at (double_kind fl) c \<or> 0 < Dy_at (double_kind fl) c)) \<or>
     (Contains_at (double_kind fl) d q \<and>
        (0 < Dx_at (double_kind fl) d \<or> 0 < Dy_at (double_kind fl) d)))"
  then show "Contains_at (double_kind fl) (Union_at (double_kind fl) xd c d) q"
    using Union_contains_at_double [of xd d fl c q] by blast
qed

text \<open>
  The theorem at \<open>a = (0, 0, 10, 10)\<close>, \<open>b = (5, 5, 10, 10)\<close> and the point
  \<open>(3, 4)\<close> of \<open>a\<close>, with \<open>X\<close> for \<^verbatim>\<open>other.x()\<close>, at \<^verbatim>\<open>T = int\<close> and, with the
  rounding of binary64, at \<^verbatim>\<open>T = double\<close>.
\<close>

theorem Union_contains_kinds_witness:
  "extents_fit (RectT_new_at int_kind 0 0 10 10) \<and>
   extents_fit (RectT_new_at int_kind 5 5 10 10) \<and>
   in_int (max (sint (X (RectT_new_at int_kind 0 0 10 10))
                  + sint (Dx_at int_kind (RectT_new_at int_kind 0 0 10 10)))
               (sint (X (RectT_new_at int_kind 5 5 10 10))
                  + sint (Dx_at int_kind (RectT_new_at int_kind 5 5 10 10)))
           - min (sint (X (RectT_new_at int_kind 0 0 10 10)))
                 (sint (X (RectT_new_at int_kind 5 5 10 10)))) \<and>
   in_int (max (sint (Y (RectT_new_at int_kind 0 0 10 10))
                  + sint (Dy_at int_kind (RectT_new_at int_kind 0 0 10 10)))
               (sint (Y (RectT_new_at int_kind 5 5 10 10))
                  + sint (Dy_at int_kind (RectT_new_at int_kind 5 5 10 10)))
           - min (sint (Y (RectT_new_at int_kind 0 0 10 10)))
                 (sint (Y (RectT_new_at int_kind 5 5 10 10)))) \<and>
   ((Contains_at int_kind (RectT_new_at int_kind 0 0 10 10) (PointT_new 3 4) \<and>
       (0 < sint (Dx_at int_kind (RectT_new_at int_kind 0 0 10 10)) \<or>
        0 < sint (Dy_at int_kind (RectT_new_at int_kind 0 0 10 10)))) \<or>
    (Contains_at int_kind (RectT_new_at int_kind 5 5 10 10) (PointT_new 3 4) \<and>
       (0 < sint (Dx_at int_kind (RectT_new_at int_kind 5 5 10 10)) \<or>
        0 < sint (Dy_at int_kind (RectT_new_at int_kind 5 5 10 10))))) \<and>
   Contains_at int_kind
     (Union_at int_kind X (RectT_new_at int_kind 0 0 10 10) (RectT_new_at int_kind 5 5 10 10))
     (PointT_new 3 4) \<and>
   fl64 (max (fl64 (X \<lparr>minR = \<lparr>xP = 0, yP = 0\<rparr>, maxR = \<lparr>xP = 10, yP = 10\<rparr>\<rparr>
                 + Dx_at (double_kind fl64) \<lparr>minR = \<lparr>xP = 0, yP = 0\<rparr>, maxR = \<lparr>xP = 10, yP = 10\<rparr>\<rparr>))
            (fl64 (X \<lparr>minR = \<lparr>xP = 5, yP = 5\<rparr>, maxR = \<lparr>xP = 15, yP = 15\<rparr>\<rparr>
                 + Dx_at (double_kind fl64) \<lparr>minR = \<lparr>xP = 5, yP = 5\<rparr>, maxR = \<lparr>xP = 15, yP = 15\<rparr>\<rparr>)))
     = max (fl64 (X \<lparr>minR = \<lparr>xP = 0, yP = 0\<rparr>, maxR = \<lparr>xP = 10, yP = 10\<rparr>\<rparr>
                 + Dx_at (double_kind fl64) \<lparr>minR = \<lparr>xP = 0, yP = 0\<rparr>, maxR = \<lparr>xP = 10, yP = 10\<rparr>\<rparr>))
            (fl64 (X \<lparr>minR = \<lparr>xP = 5, yP = 5\<rparr>, maxR = \<lparr>xP = 15, yP = 15\<rparr>\<rparr>
                 + Dx_at (double_kind fl64) \<lparr>minR = \<lparr>xP = 5, yP = 5\<rparr>, maxR = \<lparr>xP = 15, yP = 15\<rparr>\<rparr>)) \<and>
   fl64 (max (fl64 (X \<lparr>minR = \<lparr>xP = 0, yP = 0\<rparr>, maxR = \<lparr>xP = 10, yP = 10\<rparr>\<rparr>
                 + Dx_at (double_kind fl64) \<lparr>minR = \<lparr>xP = 0, yP = 0\<rparr>, maxR = \<lparr>xP = 10, yP = 10\<rparr>\<rparr>))
            (fl64 (X \<lparr>minR = \<lparr>xP = 5, yP = 5\<rparr>, maxR = \<lparr>xP = 15, yP = 15\<rparr>\<rparr>
                 + Dx_at (double_kind fl64) \<lparr>minR = \<lparr>xP = 5, yP = 5\<rparr>, maxR = \<lparr>xP = 15, yP = 15\<rparr>\<rparr>))
         - min (X \<lparr>minR = \<lparr>xP = 0, yP = 0\<rparr>, maxR = \<lparr>xP = 10, yP = 10\<rparr>\<rparr>)
                ((X \<lparr>minR = \<lparr>xP = 5, yP = 5\<rparr>, maxR = \<lparr>xP = 15, yP = 15\<rparr>\<rparr>) :: real))
     = max (fl64 (X \<lparr>minR = \<lparr>xP = 0, yP = 0\<rparr>, maxR = \<lparr>xP = 10, yP = 10\<rparr>\<rparr>
                 + Dx_at (double_kind fl64) \<lparr>minR = \<lparr>xP = 0, yP = 0\<rparr>, maxR = \<lparr>xP = 10, yP = 10\<rparr>\<rparr>))
            (fl64 (X \<lparr>minR = \<lparr>xP = 5, yP = 5\<rparr>, maxR = \<lparr>xP = 15, yP = 15\<rparr>\<rparr>
                 + Dx_at (double_kind fl64) \<lparr>minR = \<lparr>xP = 5, yP = 5\<rparr>, maxR = \<lparr>xP = 15, yP = 15\<rparr>\<rparr>))
       - min (X \<lparr>minR = \<lparr>xP = 0, yP = 0\<rparr>, maxR = \<lparr>xP = 10, yP = 10\<rparr>\<rparr>)
                ((X \<lparr>minR = \<lparr>xP = 5, yP = 5\<rparr>, maxR = \<lparr>xP = 15, yP = 15\<rparr>\<rparr>) :: real) \<and>
   fl64 (max (fl64 (Y \<lparr>minR = \<lparr>xP = 0, yP = 0\<rparr>, maxR = \<lparr>xP = 10, yP = 10\<rparr>\<rparr>
                 + Dy_at (double_kind fl64) \<lparr>minR = \<lparr>xP = 0, yP = 0\<rparr>, maxR = \<lparr>xP = 10, yP = 10\<rparr>\<rparr>))
            (fl64 (Y \<lparr>minR = \<lparr>xP = 5, yP = 5\<rparr>, maxR = \<lparr>xP = 15, yP = 15\<rparr>\<rparr>
                 + Dy_at (double_kind fl64) \<lparr>minR = \<lparr>xP = 5, yP = 5\<rparr>, maxR = \<lparr>xP = 15, yP = 15\<rparr>\<rparr>)))
     = max (fl64 (Y \<lparr>minR = \<lparr>xP = 0, yP = 0\<rparr>, maxR = \<lparr>xP = 10, yP = 10\<rparr>\<rparr>
                 + Dy_at (double_kind fl64) \<lparr>minR = \<lparr>xP = 0, yP = 0\<rparr>, maxR = \<lparr>xP = 10, yP = 10\<rparr>\<rparr>))
            (fl64 (Y \<lparr>minR = \<lparr>xP = 5, yP = 5\<rparr>, maxR = \<lparr>xP = 15, yP = 15\<rparr>\<rparr>
                 + Dy_at (double_kind fl64) \<lparr>minR = \<lparr>xP = 5, yP = 5\<rparr>, maxR = \<lparr>xP = 15, yP = 15\<rparr>\<rparr>)) \<and>
   fl64 (max (fl64 (Y \<lparr>minR = \<lparr>xP = 0, yP = 0\<rparr>, maxR = \<lparr>xP = 10, yP = 10\<rparr>\<rparr>
                 + Dy_at (double_kind fl64) \<lparr>minR = \<lparr>xP = 0, yP = 0\<rparr>, maxR = \<lparr>xP = 10, yP = 10\<rparr>\<rparr>))
            (fl64 (Y \<lparr>minR = \<lparr>xP = 5, yP = 5\<rparr>, maxR = \<lparr>xP = 15, yP = 15\<rparr>\<rparr>
                 + Dy_at (double_kind fl64) \<lparr>minR = \<lparr>xP = 5, yP = 5\<rparr>, maxR = \<lparr>xP = 15, yP = 15\<rparr>\<rparr>))
         - min (Y \<lparr>minR = \<lparr>xP = 0, yP = 0\<rparr>, maxR = \<lparr>xP = 10, yP = 10\<rparr>\<rparr>)
                ((Y \<lparr>minR = \<lparr>xP = 5, yP = 5\<rparr>, maxR = \<lparr>xP = 15, yP = 15\<rparr>\<rparr>) :: real))
     = max (fl64 (Y \<lparr>minR = \<lparr>xP = 0, yP = 0\<rparr>, maxR = \<lparr>xP = 10, yP = 10\<rparr>\<rparr>
                 + Dy_at (double_kind fl64) \<lparr>minR = \<lparr>xP = 0, yP = 0\<rparr>, maxR = \<lparr>xP = 10, yP = 10\<rparr>\<rparr>))
            (fl64 (Y \<lparr>minR = \<lparr>xP = 5, yP = 5\<rparr>, maxR = \<lparr>xP = 15, yP = 15\<rparr>\<rparr>
                 + Dy_at (double_kind fl64) \<lparr>minR = \<lparr>xP = 5, yP = 5\<rparr>, maxR = \<lparr>xP = 15, yP = 15\<rparr>\<rparr>))
       - min (Y \<lparr>minR = \<lparr>xP = 0, yP = 0\<rparr>, maxR = \<lparr>xP = 10, yP = 10\<rparr>\<rparr>)
                ((Y \<lparr>minR = \<lparr>xP = 5, yP = 5\<rparr>, maxR = \<lparr>xP = 15, yP = 15\<rparr>\<rparr>) :: real) \<and>
   ((Contains_at (double_kind fl64) \<lparr>minR = \<lparr>xP = 0, yP = 0\<rparr>, maxR = \<lparr>xP = 10, yP = 10\<rparr>\<rparr>
       (PointT_new 3 4) \<and>
     (0 < Dx_at (double_kind fl64) \<lparr>minR = \<lparr>xP = 0, yP = 0\<rparr>, maxR = \<lparr>xP = 10, yP = 10\<rparr>\<rparr> \<or>
      0 < Dy_at (double_kind fl64) \<lparr>minR = \<lparr>xP = 0, yP = 0\<rparr>, maxR = \<lparr>xP = 10, yP = 10\<rparr>\<rparr>)) \<or>
    (Contains_at (double_kind fl64) \<lparr>minR = \<lparr>xP = 5, yP = 5\<rparr>, maxR = \<lparr>xP = 15, yP = 15\<rparr>\<rparr>
       (PointT_new 3 4) \<and>
     (0 < Dx_at (double_kind fl64) \<lparr>minR = \<lparr>xP = 5, yP = 5\<rparr>, maxR = \<lparr>xP = 15, yP = 15\<rparr>\<rparr> \<or>
      0 < Dy_at (double_kind fl64) \<lparr>minR = \<lparr>xP = 5, yP = 5\<rparr>, maxR = \<lparr>xP = 15, yP = 15\<rparr>\<rparr>))) \<and>
   Contains_at (double_kind fl64)
     (Union_at (double_kind fl64) X \<lparr>minR = \<lparr>xP = 0, yP = 0\<rparr>, maxR = \<lparr>xP = 10, yP = 10\<rparr>\<rparr>
        \<lparr>minR = \<lparr>xP = 5, yP = 5\<rparr>, maxR = \<lparr>xP = 15, yP = 15\<rparr>\<rparr>)
     (PointT_new 3 4)"
proof -
  let ?a = "RectT_new_at int_kind 0 0 10 10" and ?b = "RectT_new_at int_kind 5 5 10 10"
  let ?p = "PointT_new (3 :: i32) 4"
  have fa: "extents_fit ?a" and fb: "extents_fit ?b"
    by (simp_all add: extents_fit_def RectT_new_at_def int_kind_ops in_int_def)
  have w: "in_int (max (sint (X ?a) + sint (Dx_at int_kind ?a))
                       (sint (X ?b) + sint (Dx_at int_kind ?b))
                   - min (sint (X ?a)) (sint (X ?b)))"
    by (simp add: accessors_RectT_new_at extents_RectT_new_int in_int_def)
  have h: "in_int (max (sint (Y ?a) + sint (Dy_at int_kind ?a))
                       (sint (Y ?b) + sint (Dy_at int_kind ?b))
                   - min (sint (Y ?a)) (sint (Y ?b)))"
    by (simp add: accessors_RectT_new_at extents_RectT_new_int in_int_def)
  have x: "X ?b = X ?b" by (rule refl)
  have c: "(Contains_at int_kind ?a ?p \<and>
             (0 < sint (Dx_at int_kind ?a) \<or> 0 < sint (Dy_at int_kind ?a))) \<or>
           (Contains_at int_kind ?b ?p \<and>
             (0 < sint (Dx_at int_kind ?b) \<or> 0 < sint (Dy_at int_kind ?b)))"
    by (simp add: Contains_at_int RectT_new_at_def PointT_new_def int_kind_ops
        extents_RectT_new_int Dx_at_def Dy_at_def)
  let ?D = "double_kind fl64"
  let ?c = "\<lparr>minR = \<lparr>xP = 0, yP = 0\<rparr>, maxR = \<lparr>xP = 10, yP = 10\<rparr>\<rparr> :: RectD"
  let ?d = "\<lparr>minR = \<lparr>xP = 5, yP = 5\<rparr>, maxR = \<lparr>xP = 15, yP = 15\<rparr>\<rparr> :: RectD"
  let ?q = "PointT_new (3 :: real) 4"
  let ?Ex = "max (fl64 (X ?c + Dx_at ?D ?c)) (fl64 (X ?d + Dx_at ?D ?d))"
  let ?Ey = "max (fl64 (Y ?c + Dy_at ?D ?c)) (fl64 (Y ?d + Dy_at ?D ?d))"
  have v: "fl64 10 = 10" "fl64 15 = 15"
    using fl64_int [of 10] fl64_int [of 15] by simp_all
  note ev = X_def Y_def Dx_at_def Dy_at_def double_kind_ops v
  have ex: "fl64 ?Ex = ?Ex" and wx: "fl64 (?Ex - min (X ?c) (X ?d)) = ?Ex - min (X ?c) (X ?d)"
    and ey: "fl64 ?Ey = ?Ey" and wy: "fl64 (?Ey - min (Y ?c) (Y ?d)) = ?Ey - min (Y ?c) (Y ?d)"
    by (simp_all add: ev)
  have dc: "(Contains_at ?D ?c ?q \<and> (0 < Dx_at ?D ?c \<or> 0 < Dy_at ?D ?c)) \<or>
            (Contains_at ?D ?d ?q \<and> (0 < Dx_at ?D ?d \<or> 0 < Dy_at ?D ?d))"
    by (simp add: Contains_at_double PointT_new_def ev)
  have xd: "X ?d = X ?d" by (rule refl)
  note T = Union_contains_kinds [where xi = X and a = ?a and b = ?b and p = ?p
      and xd = X and c = ?c and d = ?d and q = ?q and fl = fl64]
  from T [THEN conjunct1, THEN mp] fa fb w h x c
  have c1: "Contains_at int_kind (Union_at int_kind X ?a ?b) ?p" by blast
  from T [THEN conjunct2, THEN mp] xd ex wx ey wy dc
  have c2: "Contains_at ?D (Union_at ?D X ?c ?d) ?q" by blast
  from fa fb w h c c1 ex wx ey wy dc c2 show ?thesis by blast
qed

text \<open>
  C5, as stated: \<^verbatim>\<open>Union(a, b)\<close> returns the other operand unchanged exactly
  when one operand has both extents \<open>\<le> 0\<close>; otherwise the result takes per axis
  the smaller start and the larger end. The last part fails at \<^verbatim>\<open>T = double\<close>:
  the code computes the width between the smaller start and the larger end
  and lets the constructor add it to the start, and both steps round. For
  \<open>(1, 0, 2\<^sup>-\<^sup>5\<^sup>2, 1)\<close> and \<open>(-1024, 0, 1, 1)\<close>, with \<^verbatim>\<open>other.x()\<close> returning
  \<^verbatim>\<open>other.X()\<close>, no guard fires, the larger of the two ends is \<open>1 + 2\<^sup>-\<^sup>5\<^sup>2\<close>, and
  the result ends at \<open>1\<close>.
\<close>

theorem Union_hull_counterexample:
  "\<not> (Dx_at (double_kind fl64) (RectT_new_at (double_kind fl64) 1 0 (1 / 2 ^ 52) 1) \<le> 0 \<and>
      Dy_at (double_kind fl64) (RectT_new_at (double_kind fl64) 1 0 (1 / 2 ^ 52) 1) \<le> 0) \<and>
   \<not> (Dx_at (double_kind fl64) (RectT_new_at (double_kind fl64) (- 1024) 0 1 1) \<le> 0 \<and>
      Dy_at (double_kind fl64) (RectT_new_at (double_kind fl64) (- 1024) 0 1 1) \<le> 0) \<and>
   kmax (double_kind fl64)
     (kadd (double_kind fl64) (X (RectT_new_at (double_kind fl64) 1 0 (1 / 2 ^ 52) 1))
        (Dx_at (double_kind fl64) (RectT_new_at (double_kind fl64) 1 0 (1 / 2 ^ 52) 1)))
     (kadd (double_kind fl64) (X (RectT_new_at (double_kind fl64) (- 1024) 0 1 1))
        (Dx_at (double_kind fl64) (RectT_new_at (double_kind fl64) (- 1024) 0 1 1)))
     = 1 + 1 / 2 ^ 52 \<and>
   xP (maxR (Union_at (double_kind fl64) X
        (RectT_new_at (double_kind fl64) 1 0 (1 / 2 ^ 52) 1)
        (RectT_new_at (double_kind fl64) (- 1024) 0 1 1))) = 1 \<and>
   kadd (double_kind fl64)
     (X (Union_at (double_kind fl64) X
        (RectT_new_at (double_kind fl64) 1 0 (1 / 2 ^ 52) 1)
        (RectT_new_at (double_kind fl64) (- 1024) 0 1 1)))
     (Dx_at (double_kind fl64) (Union_at (double_kind fl64) X
        (RectT_new_at (double_kind fl64) 1 0 (1 / 2 ^ 52) 1)
        (RectT_new_at (double_kind fl64) (- 1024) 0 1 1))) = 1"
  unfolding Union_double_example
  unfolding Union_double_operands
  by (simp add: Dx_at_def Dy_at_def X_def double_kind_ops kmax_double fl64_values)

text \<open>
  C5, amended. With \<^verbatim>\<open>other.x()\<close> returning \<^verbatim>\<open>other.X()\<close>:
  \<^verbatim>\<open>Union(a, b)\<close> returns \<open>b\<close> when both extents of \<open>a\<close> are \<open>\<le> 0\<close>, and \<open>a\<close> when
  (that not being so) both extents of \<open>b\<close> are \<open>\<le> 0\<close>. In every other case, also
  when an operand is empty in one dimension only, the result starts at the
  smaller of the two starts on each axis; at \<^verbatim>\<open>T = int\<close> it ends at the larger
  of the two ends on each axis, and at \<^verbatim>\<open>T = double\<close> its end is the rounded
  sum of the start and of the rounded width, which is the larger end when
  these two operations are exact and need not be otherwise. At \<^verbatim>\<open>T = int\<close> this is
  for operands on which no operation of \<^verbatim>\<open>Union\<close> overflows: the extents that
  the guards read are values of \<^verbatim>\<open>int\<close>, and in the last case so are the width
  and the height between the smaller starts and the larger ends. For the
  operand of width 0 and height 5 at the origin and the other operand
  \<open>(10, 10, 1, 1)\<close> the result is \<open>(0, 0, 11, 11)\<close>, not the other operand.
\<close>

theorem Union_spec:
  fixes a b :: RectI and c d :: RectD
  shows
  "(extents_fit a \<and> sint (Dx_at int_kind a) \<le> 0 \<and> sint (Dy_at int_kind a) \<le> 0
      \<longrightarrow> Union_at int_kind xi a b = b) \<and>
   (extents_fit a \<and> extents_fit b \<and>
    \<not> (sint (Dx_at int_kind a) \<le> 0 \<and> sint (Dy_at int_kind a) \<le> 0) \<and>
    sint (Dx_at int_kind b) \<le> 0 \<and> sint (Dy_at int_kind b) \<le> 0
      \<longrightarrow> Union_at int_kind xi a b = a) \<and>
   (extents_fit a \<and> extents_fit b \<and>
    in_int (max (sint (X a) + sint (Dx_at int_kind a)) (sint (X b) + sint (Dx_at int_kind b))
            - min (sint (X a)) (sint (X b))) \<and>
    in_int (max (sint (Y a) + sint (Dy_at int_kind a)) (sint (Y b) + sint (Dy_at int_kind b))
            - min (sint (Y a)) (sint (Y b))) \<and>
    xi b = X b \<and>
    \<not> (sint (Dx_at int_kind a) \<le> 0 \<and> sint (Dy_at int_kind a) \<le> 0) \<and>
    \<not> (sint (Dx_at int_kind b) \<le> 0 \<and> sint (Dy_at int_kind b) \<le> 0)
      \<longrightarrow> sint (X (Union_at int_kind xi a b)) = min (sint (X a)) (sint (X b)) \<and>
          sint (Y (Union_at int_kind xi a b)) = min (sint (Y a)) (sint (Y b)) \<and>
          sint (X (Union_at int_kind xi a b)) + sint (Dx_at int_kind (Union_at int_kind xi a b))
            = max (sint (X a) + sint (Dx_at int_kind a)) (sint (X b) + sint (Dx_at int_kind b)) \<and>
          sint (Y (Union_at int_kind xi a b)) + sint (Dy_at int_kind (Union_at int_kind xi a b))
            = max (sint (Y a) + sint (Dy_at int_kind a)) (sint (Y b) + sint (Dy_at int_kind b))) \<and>
   (Dx_at (double_kind fl) c \<le> 0 \<and> Dy_at (double_kind fl) c \<le> 0
      \<longrightarrow> Union_at (double_kind fl) xd c d = d) \<and>
   (\<not> (Dx_at (double_kind fl) c \<le> 0 \<and> Dy_at (double_kind fl) c \<le> 0) \<and>
    Dx_at (double_kind fl) d \<le> 0 \<and> Dy_at (double_kind fl) d \<le> 0
      \<longrightarrow> Union_at (double_kind fl) xd c d = c) \<and>
   (xd d = X d \<and>
    \<not> (Dx_at (double_kind fl) c \<le> 0 \<and> Dy_at (double_kind fl) c \<le> 0) \<and>
    \<not> (Dx_at (double_kind fl) d \<le> 0 \<and> Dy_at (double_kind fl) d \<le> 0)
      \<longrightarrow> X (Union_at (double_kind fl) xd c d) = min (X c) (X d) \<and>
          Y (Union_at (double_kind fl) xd c d) = min (Y c) (Y d) \<and>
          xP (maxR (Union_at (double_kind fl) xd c d))
            = fl (min (X c) (X d)
                  + fl (max (fl (X c + Dx_at (double_kind fl) c))
                            (fl (X d + Dx_at (double_kind fl) d)) - min (X c) (X d))) \<and>
          yP (maxR (Union_at (double_kind fl) xd c d))
            = fl (min (Y c) (Y d)
                  + fl (max (fl (Y c + Dy_at (double_kind fl) c))
                            (fl (Y d + Dy_at (double_kind fl) d)) - min (Y c) (Y d)))) \<and>
   Union_at int_kind X (RectT_new_at int_kind 0 0 0 5) (RectT_new_at int_kind 10 10 1 1)
     = RectT_new_at int_kind 0 0 11 11 \<and>
   Union_at int_kind X (RectT_new_at int_kind 0 0 0 5) (RectT_new_at int_kind 10 10 1 1)
     \<noteq> RectT_new_at int_kind 10 10 1 1"
proof -
  let ?U = "Union_at int_kind xi a b"
  have ia: "sint (Dx_at int_kind a) \<le> 0 \<and> sint (Dy_at int_kind a) \<le> 0 \<longrightarrow> ?U = b"
    by (simp add: Union_at_def int_kind_ops)
  have ib: "\<not> (sint (Dx_at int_kind a) \<le> 0 \<and> sint (Dy_at int_kind a) \<le> 0) \<and>
      sint (Dx_at int_kind b) \<le> 0 \<and> sint (Dy_at int_kind b) \<le> 0 \<longrightarrow> ?U = a"
    by (auto simp: Union_at_def int_kind_ops)
  have hull: "sint (X ?U) = min (sint (X a)) (sint (X b)) \<and>
      sint (Y ?U) = min (sint (Y a)) (sint (Y b)) \<and>
      sint (X ?U) + sint (Dx_at int_kind ?U)
        = max (sint (X a) + sint (Dx_at int_kind a)) (sint (X b) + sint (Dx_at int_kind b)) \<and>
      sint (Y ?U) + sint (Dy_at int_kind ?U)
        = max (sint (Y a) + sint (Dy_at int_kind a)) (sint (Y b) + sint (Dy_at int_kind b))"
    if fa: "extents_fit a" and fb: "extents_fit b"
      and w: "in_int (max (sint (X a) + sint (Dx_at int_kind a))
                (sint (X b) + sint (Dx_at int_kind b)) - min (sint (X a)) (sint (X b)))"
      and h: "in_int (max (sint (Y a) + sint (Dy_at int_kind a))
                (sint (Y b) + sint (Dy_at int_kind b)) - min (sint (Y a)) (sint (Y b)))"
      and x: "xi b = X b"
      and na: "\<not> (sint (Dx_at int_kind a) \<le> 0 \<and> sint (Dy_at int_kind a) \<le> 0)"
      and nb: "\<not> (sint (Dx_at int_kind b) \<le> 0 \<and> sint (Dy_at int_kind b) \<le> 0)"
  proof -
    note U = Union_at_int [where other_x = xi, OF na nb x]
    note ea = sint_extents [OF fa] and eb = sint_extents [OF fb]
    have "extents_fit ?U"
      using w h unfolding U
      by (simp add: extents_fit_def sint_kmax sint_kmin ea eb X_def Y_def)
    from sint_extents [OF this] show ?thesis
      unfolding U by (simp add: sint_kmax sint_kmin ea eb X_def Y_def)
  qed
  have da: "Dx_at (double_kind fl) c \<le> 0 \<and> Dy_at (double_kind fl) c \<le> 0
      \<longrightarrow> Union_at (double_kind fl) xd c d = d"
    by (simp add: Union_at_def double_kind_ops)
  have db: "\<not> (Dx_at (double_kind fl) c \<le> 0 \<and> Dy_at (double_kind fl) c \<le> 0) \<and>
      Dx_at (double_kind fl) d \<le> 0 \<and> Dy_at (double_kind fl) d \<le> 0
      \<longrightarrow> Union_at (double_kind fl) xd c d = c"
    by (auto simp: Union_at_def double_kind_ops)
  have dstart: "X (Union_at (double_kind fl) xd c d) = min (X c) (X d) \<and>
      Y (Union_at (double_kind fl) xd c d) = min (Y c) (Y d) \<and>
      xP (maxR (Union_at (double_kind fl) xd c d))
        = fl (min (X c) (X d)
              + fl (max (fl (X c + Dx_at (double_kind fl) c))
                        (fl (X d + Dx_at (double_kind fl) d)) - min (X c) (X d))) \<and>
      yP (maxR (Union_at (double_kind fl) xd c d))
        = fl (min (Y c) (Y d)
              + fl (max (fl (Y c + Dy_at (double_kind fl) c))
                        (fl (Y d + Dy_at (double_kind fl) d)) - min (Y c) (Y d)))"
    if x: "xd d = X d"
      and nc: "\<not> (Dx_at (double_kind fl) c \<le> 0 \<and> Dy_at (double_kind fl) c \<le> 0)"
      and nd: "\<not> (Dx_at (double_kind fl) d \<le> 0 \<and> Dy_at (double_kind fl) d \<le> 0)"
  proof -
    let ?D = "double_kind fl"
    have gc: "\<not> (kle ?D (Dx_at ?D c) 0 \<and> kle ?D (Dy_at ?D c) 0)"
      using nc by (simp add: double_kind_ops)
    have gd: "\<not> (kle ?D (Dx_at ?D d) 0 \<and> kle ?D (Dy_at ?D d) 0)"
      using nd by (simp add: double_kind_ops)
    have U: "Union_at ?D xd c d =
        RectT_new_at ?D (min (X c) (X d)) (min (Y c) (Y d))
          (fl (max (fl (X c + Dx_at ?D c)) (fl (X d + Dx_at ?D d)) - min (X c) (X d)))
          (fl (max (fl (Y c + Dy_at ?D c)) (fl (Y d + Dy_at ?D d)) - min (Y c) (Y d)))"
      unfolding Union_at_def Let_def
      by (simp only: gc gd if_False x) (simp only: kmin_double kmax_double double_kind_ops)
    show ?thesis
      unfolding U by (simp only: accessors_RectT_new_at double_kind_ops)
  qed
  have example: "Union_at int_kind X (RectT_new_at int_kind 0 0 0 5)
      (RectT_new_at int_kind 10 10 1 1) = RectT_new_at int_kind 0 0 11 11"
    by (simp add: Union_at_def Let_def Dx_at_def Dy_at_def X_def Y_def RectT_new_at_def
        kmax_def kmin_def int_kind_ops)
  have "RectT_new_at int_kind 0 0 11 11 \<noteq> RectT_new_at int_kind 10 10 1 1"
    by (simp add: RectT_new_at_def)
  with example have differs: "Union_at int_kind X (RectT_new_at int_kind 0 0 0 5)
      (RectT_new_at int_kind 10 10 1 1) \<noteq> RectT_new_at int_kind 10 10 1 1"
    by simp
  from ia ib hull da db dstart example differs show ?thesis by blast
qed

text \<open>
  The theorem on pairs of operands for each of its cases, with \<open>X\<close> for
  \<^verbatim>\<open>other.x()\<close>. At \<^verbatim>\<open>T = int\<close>: an empty first operand \<open>(3, 3, 0, 0)\<close>, an empty
  second operand \<open>(3, 3, -1, 0)\<close>, and the first operand \<open>(0, 0, 0, 5)\<close>, empty
  in one dimension only. At \<^verbatim>\<open>T = double\<close>, with the rounding of binary64: the
  same with an empty operand from \<open>(3, 3)\<close> to \<open>(3, 3)\<close>, and the operands from
  \<open>(0, 0)\<close> to \<open>(1, 1)\<close> and from \<open>(10, 10)\<close> to \<open>(11, 11)\<close>, whose union
  goes from \<open>(0, 0)\<close> to \<open>(11, 11)\<close>.
\<close>

theorem Union_spec_witness:
  "(extents_fit (RectT_new_at int_kind 3 3 0 0) \<and>
    sint (Dx_at int_kind (RectT_new_at int_kind 3 3 0 0)) \<le> 0 \<and>
    sint (Dy_at int_kind (RectT_new_at int_kind 3 3 0 0)) \<le> 0) \<and>
   Union_at int_kind X (RectT_new_at int_kind 3 3 0 0) (RectT_new_at int_kind 10 10 1 1)
     = RectT_new_at int_kind 10 10 1 1 \<and>
   (extents_fit (RectT_new_at int_kind 10 10 1 1) \<and>
    extents_fit (RectT_new_at int_kind 3 3 (- 1) 0) \<and>
    \<not> (sint (Dx_at int_kind (RectT_new_at int_kind 10 10 1 1)) \<le> 0 \<and>
       sint (Dy_at int_kind (RectT_new_at int_kind 10 10 1 1)) \<le> 0) \<and>
    sint (Dx_at int_kind (RectT_new_at int_kind 3 3 (- 1) 0)) \<le> 0 \<and>
    sint (Dy_at int_kind (RectT_new_at int_kind 3 3 (- 1) 0)) \<le> 0) \<and>
   Union_at int_kind X (RectT_new_at int_kind 10 10 1 1) (RectT_new_at int_kind 3 3 (- 1) 0)
     = RectT_new_at int_kind 10 10 1 1 \<and>
   (extents_fit (RectT_new_at int_kind 0 0 0 5) \<and>
    in_int (max (sint (X (RectT_new_at int_kind 0 0 0 5))
                   + sint (Dx_at int_kind (RectT_new_at int_kind 0 0 0 5)))
                (sint (X (RectT_new_at int_kind 10 10 1 1))
                   + sint (Dx_at int_kind (RectT_new_at int_kind 10 10 1 1)))
            - min (sint (X (RectT_new_at int_kind 0 0 0 5)))
                  (sint (X (RectT_new_at int_kind 10 10 1 1)))) \<and>
    in_int (max (sint (Y (RectT_new_at int_kind 0 0 0 5))
                   + sint (Dy_at int_kind (RectT_new_at int_kind 0 0 0 5)))
                (sint (Y (RectT_new_at int_kind 10 10 1 1))
                   + sint (Dy_at int_kind (RectT_new_at int_kind 10 10 1 1)))
            - min (sint (Y (RectT_new_at int_kind 0 0 0 5)))
                  (sint (Y (RectT_new_at int_kind 10 10 1 1)))) \<and>
    \<not> (sint (Dx_at int_kind (RectT_new_at int_kind 0 0 0 5)) \<le> 0 \<and>
       sint (Dy_at int_kind (RectT_new_at int_kind 0 0 0 5)) \<le> 0)) \<and>
   sint (X (Union_at int_kind X (RectT_new_at int_kind 0 0 0 5)
     (RectT_new_at int_kind 10 10 1 1))) = 0 \<and>
   sint (Y (Union_at int_kind X (RectT_new_at int_kind 0 0 0 5)
     (RectT_new_at int_kind 10 10 1 1))) = 0 \<and>
   sint (X (Union_at int_kind X (RectT_new_at int_kind 0 0 0 5)
       (RectT_new_at int_kind 10 10 1 1)))
     + sint (Dx_at int_kind (Union_at int_kind X (RectT_new_at int_kind 0 0 0 5)
       (RectT_new_at int_kind 10 10 1 1))) = 11 \<and>
   sint (Y (Union_at int_kind X (RectT_new_at int_kind 0 0 0 5)
       (RectT_new_at int_kind 10 10 1 1)))
     + sint (Dy_at int_kind (Union_at int_kind X (RectT_new_at int_kind 0 0 0 5)
       (RectT_new_at int_kind 10 10 1 1))) = 11 \<and>
   (Dx_at (double_kind fl64) \<lparr>minR = \<lparr>xP = 3, yP = 3\<rparr>, maxR = \<lparr>xP = 3, yP = 3\<rparr>\<rparr> \<le> 0 \<and>
    Dy_at (double_kind fl64) \<lparr>minR = \<lparr>xP = 3, yP = 3\<rparr>, maxR = \<lparr>xP = 3, yP = 3\<rparr>\<rparr> \<le> 0) \<and>
   Union_at (double_kind fl64) X \<lparr>minR = \<lparr>xP = 3, yP = 3\<rparr>, maxR = \<lparr>xP = 3, yP = 3\<rparr>\<rparr>
       \<lparr>minR = \<lparr>xP = 10, yP = 10\<rparr>, maxR = \<lparr>xP = 11, yP = 11\<rparr>\<rparr>
     = \<lparr>minR = \<lparr>xP = 10, yP = 10\<rparr>, maxR = \<lparr>xP = 11, yP = 11\<rparr>\<rparr> \<and>
   \<not> (Dx_at (double_kind fl64) \<lparr>minR = \<lparr>xP = 10, yP = 10\<rparr>, maxR = \<lparr>xP = 11, yP = 11\<rparr>\<rparr> \<le> 0 \<and>
      Dy_at (double_kind fl64) \<lparr>minR = \<lparr>xP = 10, yP = 10\<rparr>, maxR = \<lparr>xP = 11, yP = 11\<rparr>\<rparr> \<le> 0) \<and>
   Union_at (double_kind fl64) X \<lparr>minR = \<lparr>xP = 10, yP = 10\<rparr>, maxR = \<lparr>xP = 11, yP = 11\<rparr>\<rparr>
       \<lparr>minR = \<lparr>xP = 3, yP = 3\<rparr>, maxR = \<lparr>xP = 3, yP = 3\<rparr>\<rparr>
     = \<lparr>minR = \<lparr>xP = 10, yP = 10\<rparr>, maxR = \<lparr>xP = 11, yP = 11\<rparr>\<rparr> \<and>
   \<not> (Dx_at (double_kind fl64) \<lparr>minR = \<lparr>xP = 0, yP = 0\<rparr>, maxR = \<lparr>xP = 1, yP = 1\<rparr>\<rparr> \<le> 0 \<and>
      Dy_at (double_kind fl64) \<lparr>minR = \<lparr>xP = 0, yP = 0\<rparr>, maxR = \<lparr>xP = 1, yP = 1\<rparr>\<rparr> \<le> 0) \<and>
   X (Union_at (double_kind fl64) X \<lparr>minR = \<lparr>xP = 0, yP = 0\<rparr>, maxR = \<lparr>xP = 1, yP = 1\<rparr>\<rparr>
       \<lparr>minR = \<lparr>xP = 10, yP = 10\<rparr>, maxR = \<lparr>xP = 11, yP = 11\<rparr>\<rparr>) = 0 \<and>
   Y (Union_at (double_kind fl64) X \<lparr>minR = \<lparr>xP = 0, yP = 0\<rparr>, maxR = \<lparr>xP = 1, yP = 1\<rparr>\<rparr>
       \<lparr>minR = \<lparr>xP = 10, yP = 10\<rparr>, maxR = \<lparr>xP = 11, yP = 11\<rparr>\<rparr>) = 0 \<and>
   xP (maxR (Union_at (double_kind fl64) X
       \<lparr>minR = \<lparr>xP = 0, yP = 0\<rparr>, maxR = \<lparr>xP = 1, yP = 1\<rparr>\<rparr>
       \<lparr>minR = \<lparr>xP = 10, yP = 10\<rparr>, maxR = \<lparr>xP = 11, yP = 11\<rparr>\<rparr>)) = 11 \<and>
   yP (maxR (Union_at (double_kind fl64) X
       \<lparr>minR = \<lparr>xP = 0, yP = 0\<rparr>, maxR = \<lparr>xP = 1, yP = 1\<rparr>\<rparr>
       \<lparr>minR = \<lparr>xP = 10, yP = 10\<rparr>, maxR = \<lparr>xP = 11, yP = 11\<rparr>\<rparr>)) = 11"
proof -
  let ?e = "RectT_new_at int_kind 3 3 0 0" and ?n = "RectT_new_at int_kind 3 3 (- 1) 0"
  let ?b = "RectT_new_at int_kind 10 10 1 1" and ?h = "RectT_new_at int_kind 0 0 0 5"
  let ?de = "\<lparr>minR = \<lparr>xP = 3, yP = 3\<rparr>, maxR = \<lparr>xP = 3, yP = 3\<rparr>\<rparr> :: RectD"
  let ?db = "\<lparr>minR = \<lparr>xP = 10, yP = 10\<rparr>, maxR = \<lparr>xP = 11, yP = 11\<rparr>\<rparr> :: RectD"
  let ?du = "\<lparr>minR = \<lparr>xP = 0, yP = 0\<rparr>, maxR = \<lparr>xP = 1, yP = 1\<rparr>\<rparr> :: RectD"
  let ?D = "double_kind fl64"
  note ev = extents_fit_def accessors_RectT_new_at extents_RectT_new_int RectT_new_at_def
    int_kind_ops in_int_def
  have f: "extents_fit ?e" "extents_fit ?n" "extents_fit ?b" "extents_fit ?h"
    by (simp_all add: ev)
  have h1: "extents_fit ?e \<and> sint (Dx_at int_kind ?e) \<le> 0 \<and> sint (Dy_at int_kind ?e) \<le> 0"
    using f by (simp add: extents_RectT_new_int)
  have h2: "extents_fit ?b \<and> extents_fit ?n \<and>
      \<not> (sint (Dx_at int_kind ?b) \<le> 0 \<and> sint (Dy_at int_kind ?b) \<le> 0) \<and>
      sint (Dx_at int_kind ?n) \<le> 0 \<and> sint (Dy_at int_kind ?n) \<le> 0"
    using f by (simp add: extents_RectT_new_int)
  have h3: "extents_fit ?h \<and>
      in_int (max (sint (X ?h) + sint (Dx_at int_kind ?h)) (sint (X ?b) + sint (Dx_at int_kind ?b))
              - min (sint (X ?h)) (sint (X ?b))) \<and>
      in_int (max (sint (Y ?h) + sint (Dy_at int_kind ?h)) (sint (Y ?b) + sint (Dy_at int_kind ?b))
              - min (sint (Y ?h)) (sint (Y ?b))) \<and>
      \<not> (sint (Dx_at int_kind ?h) \<le> 0 \<and> sint (Dy_at int_kind ?h) \<le> 0)"
    using f by (simp add: accessors_RectT_new_at extents_RectT_new_int in_int_def)
  have nb: "\<not> (sint (Dx_at int_kind ?b) \<le> 0 \<and> sint (Dy_at int_kind ?b) \<le> 0)"
    by (simp add: extents_RectT_new_int)
  have h4: "Dx_at ?D ?de \<le> 0 \<and> Dy_at ?D ?de \<le> 0"
    by (simp add: Dx_at_def Dy_at_def double_kind_ops fl64_def)
  have h5: "\<not> (Dx_at ?D ?db \<le> 0 \<and> Dy_at ?D ?db \<le> 0)"
    by (simp add: Dx_at_def Dy_at_def double_kind_ops fl64_values)
  have h6: "\<not> (Dx_at ?D ?du \<le> 0 \<and> Dy_at ?D ?du \<le> 0)"
    by (simp add: Dx_at_def Dy_at_def double_kind_ops fl64_values)
  note t1 = Union_spec [where a = ?e and b = ?b and xi = X]
  note t2 = Union_spec [where a = ?b and b = ?n and xi = X]
  note t3 = Union_spec [where a = ?h and b = ?b and xi = X]
  note t4 = Union_spec [where c = ?de and d = ?db and xd = X and fl = fl64]
  note t5 = Union_spec [where c = ?db and d = ?de and xd = X and fl = fl64]
  note t6 = Union_spec [where c = ?du and d = ?db and xd = X and fl = fl64]
  from t1 h1 have c1: "Union_at int_kind X ?e ?b = ?b" by blast
  from t2 h2 have c2: "Union_at int_kind X ?b ?n = ?b" by blast
  from t3 h3 f(3) nb have
    "sint (X (Union_at int_kind X ?h ?b)) = min (sint (X ?h)) (sint (X ?b)) \<and>
     sint (Y (Union_at int_kind X ?h ?b)) = min (sint (Y ?h)) (sint (Y ?b)) \<and>
     sint (X (Union_at int_kind X ?h ?b)) + sint (Dx_at int_kind (Union_at int_kind X ?h ?b))
       = max (sint (X ?h) + sint (Dx_at int_kind ?h)) (sint (X ?b) + sint (Dx_at int_kind ?b)) \<and>
     sint (Y (Union_at int_kind X ?h ?b)) + sint (Dy_at int_kind (Union_at int_kind X ?h ?b))
       = max (sint (Y ?h) + sint (Dy_at int_kind ?h)) (sint (Y ?b) + sint (Dy_at int_kind ?b))"
    by blast
  then have c3:
    "sint (X (Union_at int_kind X ?h ?b)) = 0 \<and> sint (Y (Union_at int_kind X ?h ?b)) = 0 \<and>
     sint (X (Union_at int_kind X ?h ?b)) + sint (Dx_at int_kind (Union_at int_kind X ?h ?b)) = 11 \<and>
     sint (Y (Union_at int_kind X ?h ?b)) + sint (Dy_at int_kind (Union_at int_kind X ?h ?b)) = 11"
    by (simp add: accessors_RectT_new_at extents_RectT_new_int)
  from t4 h4 have c4: "Union_at ?D X ?de ?db = ?db" by blast
  from t5 h5 h4 have c5: "Union_at ?D X ?db ?de = ?db" by blast
  have h7: "X ?db = X ?db \<and> \<not> (Dx_at ?D ?du \<le> 0 \<and> Dy_at ?D ?du \<le> 0) \<and>
      \<not> (Dx_at ?D ?db \<le> 0 \<and> Dy_at ?D ?db \<le> 0)"
    by (intro conjI refl h6 h5)
  from t6 [THEN conjunct2, THEN conjunct2, THEN conjunct2, THEN conjunct2, THEN conjunct2,
      THEN conjunct1, THEN mp, OF h7] have
    "X (Union_at ?D X ?du ?db) = min (X ?du) (X ?db) \<and>
     Y (Union_at ?D X ?du ?db) = min (Y ?du) (Y ?db) \<and>
     xP (maxR (Union_at ?D X ?du ?db))
       = fl64 (min (X ?du) (X ?db)
               + fl64 (max (fl64 (X ?du + Dx_at ?D ?du)) (fl64 (X ?db + Dx_at ?D ?db))
                       - min (X ?du) (X ?db))) \<and>
     yP (maxR (Union_at ?D X ?du ?db))
       = fl64 (min (Y ?du) (Y ?db)
               + fl64 (max (fl64 (Y ?du + Dy_at ?D ?du)) (fl64 (Y ?db + Dy_at ?D ?db))
                       - min (Y ?du) (Y ?db)))" .
  moreover have "fl64 11 = 11" using fl64_int [of 11] by simp
  ultimately have c6: "X (Union_at ?D X ?du ?db) = 0 \<and> Y (Union_at ?D X ?du ?db) = 0 \<and>
      xP (maxR (Union_at ?D X ?du ?db)) = 11 \<and> yP (maxR (Union_at ?D X ?du ?db)) = 11"
    by (simp add: X_def Y_def Dx_at_def Dy_at_def double_kind_ops fl64_values)
  from h1 c1 h2 c2 h3 c3 h4 c4 h5 c5 h6 c6 show ?thesis by blast
qed

section \<open>Intersect\<close>







text \<open>
  C7. For all rectangles \<open>a\<close> and \<open>b\<close>, \<^verbatim>\<open>Intersect(a, b) == Intersect(b, a)\<close>:
  the two results agree under \<^verbatim>\<open>operator==\<close>, and they are the same rectangle.
\<close>

theorem Intersect_commute:
  "RectT_eq (Intersect a b) (Intersect b a) \<and> Intersect a b = Intersect b a"
proof -
  have "Intersect a b = Intersect b a"
    by (simp add: Intersect_def Let_def max.commute min.commute disj_commute)
  then show ?thesis by (simp add: RectT_eq_def)
qed

section \<open>FromXY\<close>

text \<open>
  C6, as stated: for all corner points \<open>p1\<close> and \<open>p2\<close>, \<^verbatim>\<open>FromXY(p1, p2)\<close> has a
  width and a height that are not negative, and
  \<^verbatim>\<open>FromXY(p1, p2) == FromXY(p2, p1)\<close>. At \<^verbatim>\<open>T = int\<close> this fails for corners that
  are \<open>2\<^sup>3\<^sup>1\<close> apart: for \<open>p1 = (-2\<^sup>3\<^sup>0, 0)\<close> and \<open>p2 = (2\<^sup>3\<^sup>0, 0)\<close> the difference
  \<^verbatim>\<open>xe - xs\<close> overflows; computed in 32 bits it is \<open>-2\<^sup>3\<^sup>1\<close>, whose negation is
  \<open>-2\<^sup>3\<^sup>1\<close> again, the width of the result is \<open>-2\<^sup>3\<^sup>1\<close>, and the result starts at
  \<open>2\<^sup>3\<^sup>0\<close>, where that of the other corner order starts at \<open>-2\<^sup>3\<^sup>0\<close>.
\<close>

theorem FromXY_overflow_counterexample:
  "sint (Width_at int_kind
     (FromXY_pts_at int_kind (PointT_new (- 1073741824) 0) (PointT_new 1073741824 0)))
     = - 2147483648 \<and>
   X (FromXY_pts_at int_kind (PointT_new (- 1073741824) 0) (PointT_new 1073741824 0))
     = 1073741824 \<and>
   X (FromXY_pts_at int_kind (PointT_new 1073741824 0) (PointT_new (- 1073741824) 0))
     = - 1073741824 \<and>
   \<not> RectT_eq_at int_kind
     (FromXY_pts_at int_kind (PointT_new (- 1073741824) 0) (PointT_new 1073741824 0))
     (FromXY_pts_at int_kind (PointT_new 1073741824 0) (PointT_new (- 1073741824) 0))"
  by (simp add: FromXY_pts_at_def FromXY_at_def PointT_new_def Let_def int_kind_ops
      RectT_new_at_def Width_at_def RectT_eq_at_def X_def)

text \<open>
  \<^verbatim>\<open>FromXY\<close> at \<^verbatim>\<open>T = int\<close>, for corners whose coordinates differ by less than
  \<open>2\<^sup>3\<^sup>1\<close> on each axis.
\<close>

lemma FromXY_normalised_at_int:
  assumes "\<bar>sint (xP p2) - sint (xP p1)\<bar> < 2 ^ 31"
    and "\<bar>sint (yP p2) - sint (yP p1)\<bar> < 2 ^ 31"
  shows "0 \<le> sint (Width_at int_kind (FromXY_pts_at int_kind p1 p2)) \<and>
         0 \<le> sint (Height_at int_kind (FromXY_pts_at int_kind p1 p2)) \<and>
         RectT_eq_at int_kind (FromXY_pts_at int_kind p1 p2) (FromXY_pts_at int_kind p2 p1) \<and>
         FromXY_pts_at int_kind p1 p2 = FromXY_pts_at int_kind p2 p1"
proof -
  have fx: "in_int (sint (xP p2) - sint (xP p1))" "in_int (sint (xP p1) - sint (xP p2))"
    using assms(1) by (simp_all add: in_int_def abs_less_iff)
  have fy: "in_int (sint (yP p2) - sint (yP p1))" "in_int (sint (yP p1) - sint (yP p2))"
    using assms(2) by (simp_all add: in_int_def abs_less_iff)
  have same: "FromXY_pts_at int_kind p1 p2 = FromXY_pts_at int_kind p2 p1"
    unfolding FromXY_pts_at_def FromXY_at_int [OF fx(1) fy(1)] FromXY_at_int [OF fx(2) fy(2)]
    by (auto simp: sint_inj [symmetric])
  have width: "0 \<le> sint (Width_at int_kind (FromXY_pts_at int_kind p1 p2))"
    unfolding FromXY_pts_at_def FromXY_at_int [OF fx(1) fy(1)]
    using fx by (simp add: Width_at_def int_kind_ops sint_sub_fit)
  have height: "0 \<le> sint (Height_at int_kind (FromXY_pts_at int_kind p1 p2))"
    unfolding FromXY_pts_at_def FromXY_at_int [OF fx(1) fy(1)]
    using fy by (simp add: Height_at_def int_kind_ops sint_sub_fit)
  from same width height show ?thesis
    by (simp add: RectT_eq_at_def)
qed

text \<open>
  \<^verbatim>\<open>FromXY\<close> at \<^verbatim>\<open>T = double\<close>, for a rounding that is monotone and odd, for
  coordinates that are doubles (the rounding leaves them as they are), and
  when the difference of two distinct coordinates does not round to 0, which
  no difference of two doubles does in IEEE 754: the start is the smaller
  coordinate and the width is the rounded distance.
\<close>

lemma FromXY_axis_double:
  assumes "rounds fl" and "s \<noteq> e \<longrightarrow> fl (e - s) \<noteq> 0"
  shows "(if kless (double_kind fl) (ksub (double_kind fl) e s) 0
          then (e, kneg (double_kind fl) (ksub (double_kind fl) e s))
          else (s, ksub (double_kind fl) e s))
       = (min s e, fl \<bar>e - s\<bar>)"
proof -
  note z = rounds_zero [OF assms(1)]
  consider "s < e" | "e < s" | "s = e" by linarith
  then show ?thesis
  proof cases
    case 1
    then have "fl 0 \<le> fl (e - s)" by (intro rounds_mono [OF assms(1)]) simp
    with 1 show ?thesis by (simp add: double_kind_ops z)
  next
    case 2
    then have "fl (e - s) \<le> fl 0" by (intro rounds_mono [OF assms(1)]) simp
    moreover have "fl (e - s) \<noteq> 0" using 2 assms(2) by simp
    ultimately have neg: "fl (e - s) < 0" by (simp add: z)
    have "- fl (e - s) = fl \<bar>e - s\<bar>"
      using 2 rounds_minus [OF assms(1), of "e - s"] by simp
    with neg 2 show ?thesis by (simp add: double_kind_ops)
  next
    case 3
    then show ?thesis by (simp add: double_kind_ops z)
  qed
qed

lemma FromXY_at_double:
  assumes "rounds fl" and "xs \<noteq> xe \<longrightarrow> fl (xe - xs) \<noteq> 0" and "ys \<noteq> ye \<longrightarrow> fl (ye - ys) \<noteq> 0"
  shows "FromXY_at (double_kind fl) xs ys xe ye =
    \<lparr>minR = \<lparr>xP = min xs xe, yP = min ys ye\<rparr>,
     maxR = \<lparr>xP = fl (min xs xe + fl \<bar>xe - xs\<bar>), yP = fl (min ys ye + fl \<bar>ye - ys\<bar>)\<rparr>\<rparr>"
  unfolding FromXY_at_def Let_def
    FromXY_axis_double [OF assms(1,2)] FromXY_axis_double [OF assms(1,3)]
  by (simp add: RectT_new_at_def double_kind_ops)

lemma FromXY_normalised_at_double:
  assumes r: "rounds fl"
    and d: "fl (xP q1) = xP q1" "fl (xP q2) = xP q2" "fl (yP q1) = yP q1" "fl (yP q2) = yP q2"
    and nx: "xP q1 \<noteq> xP q2 \<longrightarrow> fl (xP q2 - xP q1) \<noteq> 0"
    and ny: "yP q1 \<noteq> yP q2 \<longrightarrow> fl (yP q2 - yP q1) \<noteq> 0"
  shows "0 \<le> Width_at (double_kind fl) (FromXY_pts_at (double_kind fl) q1 q2) \<and>
         0 \<le> Height_at (double_kind fl) (FromXY_pts_at (double_kind fl) q1 q2) \<and>
         RectT_eq_at (double_kind fl) (FromXY_pts_at (double_kind fl) q1 q2)
           (FromXY_pts_at (double_kind fl) q2 q1) \<and>
         FromXY_pts_at (double_kind fl) q1 q2 = FromXY_pts_at (double_kind fl) q2 q1"
proof -
  note z = rounds_zero [OF r]
  have nx': "xP q2 \<noteq> xP q1 \<longrightarrow> fl (xP q1 - xP q2) \<noteq> 0"
    using nx rounds_minus [OF r, of "xP q2 - xP q1"] by auto
  have ny': "yP q2 \<noteq> yP q1 \<longrightarrow> fl (yP q1 - yP q2) \<noteq> 0"
    using ny rounds_minus [OF r, of "yP q2 - yP q1"] by auto
  note F = FromXY_at_double [OF r nx ny] and F' = FromXY_at_double [OF r nx' ny']
  have same: "FromXY_pts_at (double_kind fl) q1 q2 = FromXY_pts_at (double_kind fl) q2 q1"
    unfolding FromXY_pts_at_def F F' by (simp add: min.commute abs_minus_commute)
  have grow: "0 \<le> fl (fl (m + fl \<bar>w\<bar>) - m)" if "fl m = m" for m w
  proof -
    have "fl 0 \<le> fl \<bar>w\<bar>" by (intro rounds_mono [OF r]) simp
    then have "m \<le> m + fl \<bar>w\<bar>" by (simp add: z)
    then have "fl m \<le> fl (m + fl \<bar>w\<bar>)" by (rule rounds_mono [OF r])
    then have "0 \<le> fl (m + fl \<bar>w\<bar>) - m" by (simp add: that)
    then have "fl 0 \<le> fl (fl (m + fl \<bar>w\<bar>) - m)" by (rule rounds_mono [OF r])
    then show ?thesis by (simp add: z)
  qed
  have mx: "fl (min (xP q1) (xP q2)) = min (xP q1) (xP q2)"
    using d(1,2) by (simp add: min_def)
  have my: "fl (min (yP q1) (yP q2)) = min (yP q1) (yP q2)"
    using d(3,4) by (simp add: min_def)
  have width: "0 \<le> Width_at (double_kind fl) (FromXY_pts_at (double_kind fl) q1 q2)"
    unfolding FromXY_pts_at_def F using grow [OF mx]
    by (simp add: Width_at_def double_kind_ops)
  have height: "0 \<le> Height_at (double_kind fl) (FromXY_pts_at (double_kind fl) q1 q2)"
    unfolding FromXY_pts_at_def F using grow [OF my]
    by (simp add: Height_at_def double_kind_ops)
  from same width height show ?thesis
    by (simp add: RectT_eq_at_def)
qed

text \<open>
  C6, amended: \<^verbatim>\<open>FromXY(p1, p2)\<close> has a width and a height that are not
  negative, and \<^verbatim>\<open>FromXY(p1, p2) == FromXY(p2, p1)\<close> (the two agree under
  \<^verbatim>\<open>operator==\<close>, and they are the same rectangle),
  \<^item> at \<^verbatim>\<open>T = int\<close> for all corner points \<open>p1\<close> and \<open>p2\<close> whose coordinates differ
    by less than \<open>2\<^sup>3\<^sup>1\<close> on each axis, so that neither \<^verbatim>\<open>xe - xs\<close>, \<^verbatim>\<open>ye - ys\<close>
    nor their negations overflow;
  \<^item> at \<^verbatim>\<open>T = double\<close> for all corner points with finite coordinates, the
    rounding being monotone and odd and giving 0 for no difference of two
    distinct coordinates.
\<close>

theorem FromXY_normalised_kinds:
  fixes p1 p2 :: PointI and q1 q2 :: PointD
  shows
  "(\<bar>sint (xP p2) - sint (xP p1)\<bar> < 2 ^ 31 \<and> \<bar>sint (yP p2) - sint (yP p1)\<bar> < 2 ^ 31
      \<longrightarrow> 0 \<le> sint (Width_at int_kind (FromXY_pts_at int_kind p1 p2)) \<and>
          0 \<le> sint (Height_at int_kind (FromXY_pts_at int_kind p1 p2)) \<and>
          RectT_eq_at int_kind (FromXY_pts_at int_kind p1 p2) (FromXY_pts_at int_kind p2 p1) \<and>
          FromXY_pts_at int_kind p1 p2 = FromXY_pts_at int_kind p2 p1) \<and>
   (rounds fl \<and>
    fl (xP q1) = xP q1 \<and> fl (xP q2) = xP q2 \<and> fl (yP q1) = yP q1 \<and> fl (yP q2) = yP q2 \<and>
    (xP q1 \<noteq> xP q2 \<longrightarrow> fl (xP q2 - xP q1) \<noteq> 0) \<and>
    (yP q1 \<noteq> yP q2 \<longrightarrow> fl (yP q2 - yP q1) \<noteq> 0)
      \<longrightarrow> 0 \<le> Width_at (double_kind fl) (FromXY_pts_at (double_kind fl) q1 q2) \<and>
          0 \<le> Height_at (double_kind fl) (FromXY_pts_at (double_kind fl) q1 q2) \<and>
          RectT_eq_at (double_kind fl) (FromXY_pts_at (double_kind fl) q1 q2)
            (FromXY_pts_at (double_kind fl) q2 q1) \<and>
          FromXY_pts_at (double_kind fl) q1 q2 = FromXY_pts_at (double_kind fl) q2 q1)"
  using FromXY_normalised_at_int [of p2 p1] FromXY_normalised_at_double [of fl q1 q2]
  by blast

text \<open>
  The theorem at the corners \<open>(10, 20)\<close> and \<open>(3, 25)\<close>, which are in neither
  order the top left and the bottom right corner, at \<^verbatim>\<open>T = int\<close> and, with the
  rounding of binary64, at \<^verbatim>\<open>T = double\<close>.
\<close>

theorem FromXY_normalised_kinds_witness:
  "(\<bar>sint (xP (PointT_new (3 :: i32) 25)) - sint (xP (PointT_new (10 :: i32) 20))\<bar> < 2 ^ 31 \<and>
    \<bar>sint (yP (PointT_new (3 :: i32) 25)) - sint (yP (PointT_new (10 :: i32) 20))\<bar> < 2 ^ 31) \<and>
   0 \<le> sint (Width_at int_kind (FromXY_pts_at int_kind (PointT_new 10 20) (PointT_new 3 25))) \<and>
   0 \<le> sint (Height_at int_kind (FromXY_pts_at int_kind (PointT_new 10 20) (PointT_new 3 25))) \<and>
   RectT_eq_at int_kind (FromXY_pts_at int_kind (PointT_new 10 20) (PointT_new 3 25))
     (FromXY_pts_at int_kind (PointT_new 3 25) (PointT_new 10 20)) \<and>
   FromXY_pts_at int_kind (PointT_new 10 20) (PointT_new 3 25)
     = FromXY_pts_at int_kind (PointT_new 3 25) (PointT_new 10 20) \<and>
   rounds fl64 \<and>
   fl64 (xP (PointT_new 10 20)) = xP (PointT_new 10 (20 :: real)) \<and>
   fl64 (xP (PointT_new 3 25)) = xP (PointT_new 3 (25 :: real)) \<and>
   fl64 (yP (PointT_new 10 20)) = yP (PointT_new 10 (20 :: real)) \<and>
   fl64 (yP (PointT_new 3 25)) = yP (PointT_new 3 (25 :: real)) \<and>
   fl64 (xP (PointT_new 3 25) - xP (PointT_new 10 (20 :: real))) \<noteq> 0 \<and>
   fl64 (yP (PointT_new 3 25) - yP (PointT_new 10 (20 :: real))) \<noteq> 0 \<and>
   0 \<le> Width_at (double_kind fl64)
          (FromXY_pts_at (double_kind fl64) (PointT_new 10 20) (PointT_new 3 25)) \<and>
   0 \<le> Height_at (double_kind fl64)
          (FromXY_pts_at (double_kind fl64) (PointT_new 10 20) (PointT_new 3 25)) \<and>
   RectT_eq_at (double_kind fl64)
     (FromXY_pts_at (double_kind fl64) (PointT_new 10 20) (PointT_new 3 25))
     (FromXY_pts_at (double_kind fl64) (PointT_new 3 25) (PointT_new 10 20)) \<and>
   FromXY_pts_at (double_kind fl64) (PointT_new 10 20) (PointT_new 3 25)
     = FromXY_pts_at (double_kind fl64) (PointT_new 3 25) (PointT_new 10 20)"
proof -
  let ?p1 = "PointT_new (10 :: i32) 20" and ?p2 = "PointT_new (3 :: i32) 25"
  let ?q1 = "PointT_new (10 :: real) 20" and ?q2 = "PointT_new (3 :: real) 25"
  have h: "\<bar>sint (xP ?p2) - sint (xP ?p1)\<bar> < 2 ^ 31 \<and> \<bar>sint (yP ?p2) - sint (yP ?p1)\<bar> < 2 ^ 31"
    by (simp add: PointT_new_def)
  have v: "fl64 10 = 10" "fl64 20 = 20" "fl64 3 = 3" "fl64 25 = 25" "fl64 (- 7) = - 7" "fl64 5 = 5"
    using fl64_int [of 10] fl64_int [of 20] fl64_int [of 3] fl64_int [of 25]
      fl64_int [of "- 7"] fl64_int [of 5]
    by simp_all
  have d: "fl64 (xP ?q1) = xP ?q1" "fl64 (xP ?q2) = xP ?q2"
    "fl64 (yP ?q1) = yP ?q1" "fl64 (yP ?q2) = yP ?q2"
    by (simp_all add: PointT_new_def v)
  have n: "fl64 (xP ?q2 - xP ?q1) \<noteq> 0" "fl64 (yP ?q2 - yP ?q1) \<noteq> 0"
    by (simp_all add: PointT_new_def v)
  note T = FromXY_normalised_kinds [of ?p2 ?p1 fl64 ?q1 ?q2]
  from T h have c1:
    "0 \<le> sint (Width_at int_kind (FromXY_pts_at int_kind ?p1 ?p2)) \<and>
     0 \<le> sint (Height_at int_kind (FromXY_pts_at int_kind ?p1 ?p2)) \<and>
     RectT_eq_at int_kind (FromXY_pts_at int_kind ?p1 ?p2) (FromXY_pts_at int_kind ?p2 ?p1) \<and>
     FromXY_pts_at int_kind ?p1 ?p2 = FromXY_pts_at int_kind ?p2 ?p1"
    by blast
  from T rounds_fl64 d n have c2:
    "0 \<le> Width_at (double_kind fl64) (FromXY_pts_at (double_kind fl64) ?q1 ?q2) \<and>
     0 \<le> Height_at (double_kind fl64) (FromXY_pts_at (double_kind fl64) ?q1 ?q2) \<and>
     RectT_eq_at (double_kind fl64) (FromXY_pts_at (double_kind fl64) ?q1 ?q2)
       (FromXY_pts_at (double_kind fl64) ?q2 ?q1) \<and>
     FromXY_pts_at (double_kind fl64) ?q1 ?q2 = FromXY_pts_at (double_kind fl64) ?q2 ?q1"
    by blast
  from h c1 rounds_fl64 d n c2 show ?thesis by blast
qed

section \<open>Contains\<close>


section \<open>Emptiness of points and sizes\<close>

text \<open>
  C9. A point \<open>(x, y)\<close> is empty if and only if \<open>x = 0\<close> and \<open>y = 0\<close>; a size
  \<open>(dx, dy)\<close> is empty if and only if \<open>dx = 0\<close> or \<open>dy = 0\<close>. The size \<open>(0, 5)\<close> is
  empty and the point \<open>(0, 5)\<close> is not.
\<close>

theorem emptiness_asymmetric:
  "(PointT_empty (PointT_new x y) \<longleftrightarrow> x = 0 \<and> y = 0) \<and>
   (SizeT_IsEmpty (SizeT_new dx dy) \<longleftrightarrow> dx = 0 \<or> dy = 0) \<and>
   SizeT_IsEmpty (SizeT_new (0::int) 5) \<and>
   \<not> PointT_empty (PointT_new (0::int) 5)"
  by (simp add: PointT_empty_def PointT_new_def SizeT_IsEmpty_def SizeT_new_def)

section \<open>Visiting a null tree item\<close>

text \<open>
  C10. The property: for every visitor, \<^verbatim>\<open>VisitTreeModelItems\<close> on a null tree
  item touches the item under the null check only and returns \<^verbatim>\<open>true\<close>.

  The code checks \<^verbatim>\<open>ti != nullptr\<close> around the call of the visitor, and then
  calls \<^verbatim>\<open>ti->ChildCount()\<close> outside of that check. On the null item, for
  every visitor, the call does not return \<^verbatim>\<open>true\<close>: it dereferences the null
  pointer.
\<close>

theorem VisitTreeModelItems_null:
  "VisitTreeModelItems None visitor = Inl NullDeref"
  by (simp add: VisitTreeModelItems_def)

end
